theory Spec2Isabelle
  imports Complex_Main "HOL-Library.Product_Lexorder" "HOL-Library.Multiset"
begin

section \<open>Rescue-post backend: shared data model\<close>

text \<open>
  The Python sources are embedded shallowly. A Python \<open>str\<close> is a \<open>string\<close> whose
  characters stand for the code points 0..255 (one \<open>char\<close> per code point); strings with
  code points above 255 are outside the model. Python \<open>bytes\<close> are \<open>char list\<close> as well.
  Python's unbounded \<open>int\<close> is \<open>int\<close>. \<open>None\<close> is \<open>None\<close> of an option type, and a
  missing dictionary key read through \<open>dict.get\<close> is \<open>None\<close> too.
\<close>

type_synonym bytes = "char list"

subsection \<open>Errors (app/utils/exception_handlers.py)\<close>

text \<open>
  The details payload of an error is a Python dict; insertion order is kept, so it is an
  association list. Its values are strings, lists of strings, the list of
  \<open>{field, message}\<close> pairs built by \<open>_format_pydantic_errors\<close>, or the dictionary
  of filters of a failed query. A \<open>qvalue\<close> is a value handed to the query builder.
\<close>

datatype qvalue = QStr string | QBool bool | QInt int

datatype detail =
    DStr string
  | DStrs "string list"
  | DErrors "(string \<times> string) list"
  | DFilters "(string \<times> qvalue option) list"

type_synonym details = "(string \<times> detail) list"

text \<open>
  Modelled from the spec: the module app/utils/exception_handlers.py, which declares
  \<open>AppError\<close> and \<open>InvalidDataException\<close>, is not among the sources. Section 7 of the
  spec gives two error kinds, both carrying a message and a structured details payload:
  the caller-input error (\<open>InvalidDataException(message, details)\<close>, mapped to 4xx) and
  the general service error (\<open>AppError(message, status_code, details)\<close>). Both are
  application exception classes of their own: neither is pydantic's \<open>ValidationError\<close>,
  and neither is a \<open>ValueError\<close> or \<open>AssertionError\<close>. \<open>PyValueError\<close> stands for
  Python's built-in \<open>ValueError\<close>, which no handler of the sources catches.
\<close>

datatype error =
    InvalidDataException string details
  | AppError string int details
  | PyValueError string

subsection \<open>Settings (app/utils/settings.py)\<close>

record settings =
  digitalocean_bucket :: string
  digitalocean_cdn_endpoint :: string
  digitalocean_upload_prefix :: string
  digitalocean_max_file_size_mb :: int
  admin_token :: "string option"

text \<open>Python truthiness of an optional string: \<open>None\<close> and the empty string are falsy.\<close>

fun truthy_str :: "string option \<Rightarrow> bool" where
  "truthy_str None = False"
| "truthy_str (Some s) = (s \<noteq> [])"

section \<open>Admin authorization gate (app/utils/auth.py)\<close>

text \<open>
  \<open>require_admin_token(x_api_token)\<close> returns \<open>None\<close> when access is granted and raises
  otherwise; the model returns \<open>Inr ()\<close> or \<open>Inl\<close> the error raised. The settings, read
  from the process-wide cache in the source, are an argument.
\<close>

definition require_admin_token :: "settings \<Rightarrow> string option \<Rightarrow> error + unit" where
  "require_admin_token st x_api_token =
     (if \<not> truthy_str (admin_token st) then
        Inl (AppError ''Admin token not configured'' 500 [(''missing'', DStr ''ADMIN_TOKEN'')])
      else if \<not> truthy_str x_api_token \<or> x_api_token \<noteq> admin_token st then
        Inl (AppError ''Unauthorized'' 401
               [(''error'', DStr ''Invalid or missing x-api-token'')])
      else Inr ())"

text \<open>The secret is configured when the setting holds a non-empty string.\<close>

definition secret_configured :: "settings \<Rightarrow> bool" where
  "secret_configured st = truthy_str (admin_token st)"

section \<open>Python string operations used by the sources\<close>

definition code_point :: "char \<Rightarrow> nat" where
  "code_point c = of_char c"

text \<open>\<open>str.isdigit\<close> on the code points 0..255: the ten ASCII digits and the superscripts
  two, three and one (U+00B2, U+00B3, U+00B9). \<open>str.isdecimal\<close>, which decides what
  \<open>int()\<close> accepts, holds of the ASCII digits only.\<close>

definition isdecimal :: "char \<Rightarrow> bool" where
  "isdecimal c = (48 \<le> code_point c \<and> code_point c \<le> 57)"

definition isdigit :: "char \<Rightarrow> bool" where
  "isdigit c = (isdecimal c \<or> code_point c = 178 \<or> code_point c = 179 \<or> code_point c = 185)"

text \<open>\<open>str.isspace\<close> on the code points 0..255.\<close>

definition isspace :: "char \<Rightarrow> bool" where
  "isspace c = ((9 \<le> code_point c \<and> code_point c \<le> 13)
                \<or> (28 \<le> code_point c \<and> code_point c \<le> 32)
                \<or> code_point c = 133 \<or> code_point c = 160)"

text \<open>\<open>str.lower\<close> on the code points 0..255: A..Z and the Latin-1 capitals U+00C0..U+00DE
  (the multiplication sign U+00D7 apart) move up by 32.\<close>

definition lower_char :: "char \<Rightarrow> char" where
  "lower_char c =
     (if (65 \<le> code_point c \<and> code_point c \<le> 90)
         \<or> (192 \<le> code_point c \<and> code_point c \<le> 222 \<and> code_point c \<noteq> 215)
      then char_of (code_point c + 32) else c)"

definition lower :: "string \<Rightarrow> string" where
  "lower s = map lower_char s"

definition strip :: "string \<Rightarrow> string" where
  "strip s = rev (dropWhile isspace (rev (dropWhile isspace s)))"

definition startswith :: "string \<Rightarrow> string \<Rightarrow> bool" where
  "startswith s p = (take (length p) s = p)"

text \<open>\<open>s.replace(c, r)\<close> for a one-character pattern \<open>c\<close>.\<close>

definition replace_char :: "char \<Rightarrow> string \<Rightarrow> string \<Rightarrow> string" where
  "replace_char c r s = concat (map (\<lambda>x. if x = c then r else [x]) s)"

text \<open>\<open>str(n)\<close> for a Python int: its decimal digits, with a sign when negative.\<close>

definition digit_char :: "int \<Rightarrow> char" where
  "digit_char d = char_of (48 + nat d)"

text \<open>The decimal digits of a non-negative int.\<close>

function decimal :: "int \<Rightarrow> string" where
  "decimal n = (if n < 10 then [digit_char n] else decimal (n div 10) @ [digit_char (n mod 10)])"
  by pat_completeness auto
termination
  by (relation "measure nat") auto

declare decimal.simps [simp del]

definition str_of_int :: "int \<Rightarrow> string" where
  "str_of_int n = (if n < 0 then CHR ''-'' # decimal (- n) else decimal n)"

text \<open>\<open>s.rfind(c)\<close> for a one-character pattern: the last index of \<open>c\<close>, or -1.\<close>

definition rfind :: "char \<Rightarrow> string \<Rightarrow> int" where
  "rfind c s =
     (if c \<in> set s
      then int (length s) - 1 - int (length (takeWhile (\<lambda>x. x \<noteq> c) (rev s)))
      else - 1)"

text \<open>
  \<open>os.path.splitext\<close> (posixpath): the extension starts at the last dot of the last path
  component, unless only dots precede it there (the loop over the leading dots).
\<close>

definition splitext :: "string \<Rightarrow> string \<times> string" where
  "splitext p =
     (let sepIndex = rfind CHR ''/'' p;
          dotIndex = rfind CHR ''.'' p
      in if dotIndex > sepIndex
            \<and> \<not> list_all (\<lambda>x. x = CHR ''.'')
                   (take (nat (dotIndex - (sepIndex + 1))) (drop (nat (sepIndex + 1)) p))
         then (take (nat dotIndex) p, drop (nat dotIndex) p)
         else (p, []))"

text \<open>\<open>uuid4().hex\<close>: the 128-bit integer of the UUID as 32 lower-case hexadecimal
  digits (\<open>'%032x' % self.int\<close>).\<close>

definition hex_char :: "int \<Rightarrow> char" where
  "hex_char d = ''0123456789abcdef'' ! nat (d mod 16)"

fun hex_digits :: "nat \<Rightarrow> int \<Rightarrow> string" where
  "hex_digits 0 n = []"
| "hex_digits (Suc k) n = hex_digits k (n div 16) @ [hex_char (n mod 16)]"

definition uuid_hex :: "int \<Rightarrow> string" where
  "uuid_hex n = hex_digits 32 (n mod 2 ^ 128)"

section \<open>Submissions and stored rows\<close>

text \<open>
  The fields a submission and a stored row share, under the names the schema
  \<open>RescuePostCreate\<close> and the table \<open>rescue_posts\<close> both use. The two differ in the
  type of the phone fields (\<open>'ph\<close>: a string in the schema, the Python int that
  \<open>create_rescue_post_with_images\<close> writes in the row) and of the boolean flags
  (\<open>'flag\<close>: a bool in the schema, a bool that may be null or absent in a row read
  back with \<open>dict.get\<close>).
\<close>

record ('ph, 'flag) post_fields =
  full_name :: string
  phone_number :: 'ph
  alt_phone_number :: "'ph option"
  location :: string
  land_mark :: "string option"
  district :: "string option"
  emergency_type :: string
  priority_level :: string
  number_of_peoples_to_rescue :: "int option"
  is_medical_needed :: 'flag
  water_level :: "string option"
  safe_hours :: "int option"
  need_foods :: 'flag
  need_water :: 'flag
  need_transport :: 'flag
  need_medic :: 'flag
  need_power :: 'flag
  need_clothes :: 'flag
  description :: "string option"
  location_url :: string

text \<open>
  \<open>RescuePostCreate\<close> (app/schemas/rescue_posts.py). The same record is the raw payload
  which the route \<open>POST /posts\<close> builds from its typed form parameters (required strings
  present, flags defaulting to \<open>False\<close>, keys with value \<open>None\<close> dropped by the service)
  and the validated model. The type \<open>'ph\<close> of the phone fields is \<open>string\<close> where the
  phone numbers are written in the code points 0..255, and a list over any wider
  alphabet where they are not.
\<close>

record 'ph rescue_post_create = "('ph, bool) post_fields" +
  image_urls :: "string list option"

text \<open>
  A row of the table \<open>rescue_posts\<close> as the query client returns it: the inserted fields
  and the columns the database assigns.
\<close>

record post = "(int, bool option) post_fields" +
  row_id :: string
  is_verified :: "bool option"
  created_at :: "string option"

record image =
  image_url :: string
  post_id :: string

text \<open>A row selected with \<open>"*, images(*)"\<close> carries its image rows.\<close>

record post_with_images = post +
  images :: "image list"

text \<open>Python truthiness of an optional boolean.\<close>

fun truthy :: "bool option \<Rightarrow> bool" where
  "truthy None = False"
| "truthy (Some b) = b"

section \<open>Criticality scorer (app/services/posts_service.py)\<close>

definition water_map :: "(string \<times> real) list" where
  "water_map = [(''head'', 9), (''neck'', 8), (''chest'', 7), (''shoulder'', 6),
                (''waist'', 5), (''knee'', 3), (''ankle'', 1)]"

text \<open>\<open>water_map.get(water_level, 0)\<close>.\<close>

definition water_map_get :: "string \<Rightarrow> real" where
  "water_map_get w = (case map_of water_map w of None \<Rightarrow> 0 | Some v \<Rightarrow> v)"

definition needs :: "('a post_scheme \<Rightarrow> bool option) list" where
  "needs = [need_foods, need_water, need_transport, need_power, need_clothes]"

text \<open>
  \<open>_priority_score(post)\<close>. The score is a Python float; every value it takes here is a
  small sum of integers, so it is a \<open>real\<close>. The library call
  \<open>datetime.fromisoformat(s).timestamp()\<close> is the parameter \<open>timestamp\<close>: the epoch
  seconds of \<open>s\<close>, or \<open>None\<close> where the call raises (the source catches every exception
  and takes 0.0 as the tie breaker).
\<close>

definition priority_score ::
  "(string \<Rightarrow> real option) \<Rightarrow> 'a post_scheme \<Rightarrow> real \<times> real" where
  "priority_score timestamp p =
     (let score = 0;
          people = (case number_of_peoples_to_rescue p of
                      None \<Rightarrow> 0 | Some n \<Rightarrow> if n \<noteq> 0 then n else 0);
          score = score + real_of_int (min people 50) * 2;
          wl = lower (case water_level p of None \<Rightarrow> [] | Some s \<Rightarrow> s);
          score = score + water_map_get wl;
          score = (if truthy (is_medical_needed p) then score + 10 else score);
          score = (if truthy (need_medic p) then score + 6 else score);
          score = fold (\<lambda>need s. if truthy (need p) then s + 2 else s) needs score;
          score = (case safe_hours p of
                     None \<Rightarrow> score
                   | Some h \<Rightarrow> if h \<le> 1 then score + 6
                              else if h \<le> 4 then score + 4
                              else if h \<le> 12 then score + 2
                              else score);
          score = (if truthy (is_verified p) then score + 1 else score);
          created = (case created_at p of None \<Rightarrow> [] | Some s \<Rightarrow> s);
          tie_breaker = (case timestamp (replace_char CHR ''Z'' ''+00:00'' created) of
                           Some t \<Rightarrow> - t
                         | None \<Rightarrow> 0)
      in (score, tie_breaker))"

section \<open>The database client (supabase) as the repository uses it\<close>

text \<open>
  The hosted database is outside the sources; the model keeps what the repository relies
  on. \<open>rescue_posts\<close> holds the table's rows newest first, the order every select of
  the repository asks for (\<open>order("created_at", desc=True)\<close>). \<open>api_error = Some e\<close>
  means the backend answers a request by raising \<open>APIError\<close> with text \<open>e\<close>.
  \<open>requests\<close> counts the requests executed so far. \<open>next_id\<close> and \<open>now\<close> are the
  values the database assigns to the columns \<open>id\<close> and \<open>created_at\<close> of an inserted row.
\<close>

record supabase =
  rescue_posts :: "post list"
  images_rows :: "image list"
  api_error :: "string option"
  requests :: nat
  next_id :: string
  now :: "string option"

datatype cond = Eq string qvalue | Gte string qvalue | Lte string qvalue

text \<open>The value of a named column of a row; \<open>None\<close> is SQL null.\<close>

definition column :: "string \<Rightarrow> 'a post_scheme \<Rightarrow> qvalue option" where
  "column name p =
     (if name = ''id'' then Some (QStr (row_id p))
      else if name = ''full_name'' then Some (QStr (full_name p))
      else if name = ''phone_number'' then Some (QInt (phone_number p))
      else if name = ''alt_phone_number'' then map_option QInt (alt_phone_number p)
      else if name = ''location'' then Some (QStr (location p))
      else if name = ''land_mark'' then map_option QStr (land_mark p)
      else if name = ''district'' then map_option QStr (district p)
      else if name = ''emergency_type'' then Some (QStr (emergency_type p))
      else if name = ''priority_level'' then Some (QStr (priority_level p))
      else if name = ''number_of_peoples_to_rescue''
        then map_option QInt (number_of_peoples_to_rescue p)
      else if name = ''is_medical_needed'' then map_option QBool (is_medical_needed p)
      else if name = ''water_level'' then map_option QStr (water_level p)
      else if name = ''safe_hours'' then map_option QInt (safe_hours p)
      else if name = ''need_foods'' then map_option QBool (need_foods p)
      else if name = ''need_water'' then map_option QBool (need_water p)
      else if name = ''need_transport'' then map_option QBool (need_transport p)
      else if name = ''need_medic'' then map_option QBool (need_medic p)
      else if name = ''need_power'' then map_option QBool (need_power p)
      else if name = ''need_clothes'' then map_option QBool (need_clothes p)
      else if name = ''description'' then map_option QStr (description p)
      else if name = ''location_url'' then Some (QStr (location_url p))
      else if name = ''is_verified'' then map_option QBool (is_verified p)
      else if name = ''created_at'' then map_option QStr (created_at p)
      else None)"

text \<open>A condition of the query builder (\<open>eq\<close>, \<open>gte\<close>, \<open>lte\<close>) on a row; as in SQL, a
  comparison with null does not hold.\<close>

fun holds :: "cond \<Rightarrow> 'a post_scheme \<Rightarrow> bool" where
  "holds (Eq f v) p = (column f p = Some v)"
| "holds (Gte f v) p =
     (case (column f p, v) of (Some (QInt a), QInt b) \<Rightarrow> a \<ge> b | _ \<Rightarrow> False)"
| "holds (Lte f v) p =
     (case (column f p, v) of (Some (QInt a), QInt b) \<Rightarrow> a \<le> b | _ \<Rightarrow> False)"

definition tick :: "supabase \<Rightarrow> supabase" where
  "tick db = db\<lparr>requests := requests db + 1\<rparr>"

definition embed_images :: "supabase \<Rightarrow> post \<Rightarrow> post_with_images" where
  "embed_images db p =
     post.extend p (post_with_images.fields (filter (\<lambda>i. post_id i = row_id p) (images_rows db)))"

text \<open>\<open>table("rescue_posts").select("*, images(*)")\<close>, the conditions,
  \<open>.order("created_at", desc=True).execute()\<close>: the response data, or the text of the
  \<open>APIError\<close> raised.\<close>

definition execute_select ::
  "supabase \<Rightarrow> cond list \<Rightarrow> (string + post_with_images list) \<times> supabase" where
  "execute_select db conds =
     (case api_error db of
        Some e \<Rightarrow> (Inl e, tick db)
      | None \<Rightarrow>
          (Inr (map (embed_images db)
                  (filter (\<lambda>p. list_all (\<lambda>c. holds c p) conds) (rescue_posts db))),
           tick db))"

text \<open>\<open>table("rescue_posts").update({"is_verified": True}).eq("id", post_id).execute()\<close>:
  the rows changed are the response data.\<close>

definition execute_verify_update ::
  "supabase \<Rightarrow> string \<Rightarrow> (string + post list) \<times> supabase" where
  "execute_verify_update db pid =
     (case api_error db of
        Some e \<Rightarrow> (Inl e, tick db)
      | None \<Rightarrow>
          (Inr (map (\<lambda>p. p\<lparr>is_verified := Some True\<rparr>)
                  (filter (holds (Eq ''id'' (QStr pid))) (rescue_posts db))),
           tick (db\<lparr>rescue_posts :=
                  map (\<lambda>p. if holds (Eq ''id'' (QStr pid)) p
                            then p\<lparr>is_verified := Some True\<rparr> else p)
                    (rescue_posts db)\<rparr>)))"

text \<open>\<open>table("rescue_posts").delete().eq("id", post_id).execute()\<close>: the rows deleted
  are the response data. The image rows of a deleted post go with it (the cascade the
  specification assumes of the storage layer).\<close>

definition execute_delete ::
  "supabase \<Rightarrow> string \<Rightarrow> (string + post list) \<times> supabase" where
  "execute_delete db pid =
     (case api_error db of
        Some e \<Rightarrow> (Inl e, tick db)
      | None \<Rightarrow>
          (Inr (filter (holds (Eq ''id'' (QStr pid))) (rescue_posts db)),
           tick (db\<lparr>rescue_posts :=
                    filter (\<lambda>p. \<not> holds (Eq ''id'' (QStr pid)) p) (rescue_posts db),
                  images_rows :=
                    (if filter (holds (Eq ''id'' (QStr pid))) (rescue_posts db) = []
                     then images_rows db
                     else filter (\<lambda>i. post_id i \<noteq> pid) (images_rows db))\<rparr>)))"

section \<open>Repository (app/repositories/posts_repository.py)\<close>

definition fetch_rescue_posts_with_images ::
  "supabase \<Rightarrow> (error + post_with_images list) \<times> supabase" where
  "fetch_rescue_posts_with_images db =
     (case execute_select db [] of
        (Inl exc, db') \<Rightarrow>
          (Inl (AppError ''Failed to fetch rescue posts'' 500 [(''error'', DStr exc)]), db')
      | (Inr data, db') \<Rightarrow> (Inr (if data \<noteq> [] then data else []), db'))"

text \<open>The loop of \<open>fetch_rescue_posts_filtered\<close> over \<open>filters.items()\<close>, adding one
  condition to the query for each filter that is not \<open>None\<close>.\<close>

fun add_filters :: "(string \<times> qvalue option) list \<Rightarrow> cond list \<Rightarrow> cond list" where
  "add_filters [] query = query"
| "add_filters ((field, None) # rest) query = add_filters rest query"
| "add_filters ((field, Some v) # rest) query =
     (if field = ''min_people''
        then add_filters rest (query @ [Gte ''number_of_peoples_to_rescue'' v])
      else if field = ''max_safe_hours''
        then add_filters rest (query @ [Lte ''safe_hours'' v])
      else add_filters rest (query @ [Eq field v]))"

definition fetch_rescue_posts_filtered ::
  "supabase \<Rightarrow> (string \<times> qvalue option) list
     \<Rightarrow> (error + post_with_images list) \<times> supabase" where
  "fetch_rescue_posts_filtered db filters =
     (case execute_select db (add_filters filters []) of
        (Inl exc, db') \<Rightarrow>
          (Inl (AppError ''Failed to fetch rescue posts'' 500
                  [(''error'', DStr exc), (''filters'', DFilters filters)]), db')
      | (Inr data, db') \<Rightarrow> (Inr (if data \<noteq> [] then data else []), db'))"

definition verify_rescue_post :: "supabase \<Rightarrow> string \<Rightarrow> (error + post) \<times> supabase" where
  "verify_rescue_post db pid =
     (case execute_verify_update db pid of
        (Inl exc, db') \<Rightarrow>
          (Inl (AppError ''Failed to verify rescue post'' 500
                  [(''error'', DStr exc), (''post_id'', DStr pid)]), db')
      | (Inr data, db') \<Rightarrow>
          (case data of
             [] \<Rightarrow> (Inl (AppError ''Rescue post not found'' 404
                           [(''post_id'', DStr pid)]), db')
           | row # _ \<Rightarrow> (Inr row, db')))"

definition delete_rescue_post :: "supabase \<Rightarrow> string \<Rightarrow> (error + unit) \<times> supabase" where
  "delete_rescue_post db pid =
     (case execute_delete db pid of
        (Inl exc, db') \<Rightarrow>
          (Inl (AppError ''Failed to delete rescue post'' 500
                  [(''error'', DStr exc), (''post_id'', DStr pid)]), db')
      | (Inr data, db') \<Rightarrow>
          (case data of
             [] \<Rightarrow> (Inl (AppError ''Rescue post not found'' 404
                           [(''post_id'', DStr pid)]), db')
           | row # _ \<Rightarrow> (Inr (), db')))"

section \<open>Filtering, verifying and deleting (app/services/posts_service.py)\<close>

text \<open>\<open>list_rescue_posts_filtered\<close>: the dictionary of the thirteen optional filters in
  the order the source writes it, the check that one at least is given, the query.\<close>

definition list_rescue_posts_filtered ::
  "supabase \<Rightarrow> string option \<Rightarrow> string option \<Rightarrow> string option \<Rightarrow> bool option
     \<Rightarrow> bool option \<Rightarrow> bool option \<Rightarrow> bool option \<Rightarrow> bool option \<Rightarrow> bool option
     \<Rightarrow> bool option \<Rightarrow> bool option \<Rightarrow> int option \<Rightarrow> int option
     \<Rightarrow> (error + post_with_images list) \<times> supabase" where
  "list_rescue_posts_filtered db district' emergency_type' water_level' is_medical_needed'
       need_foods' need_water' need_transport' need_medic' need_power' need_clothes'
       is_verified' min_people' max_safe_hours' =
     (let filters =
            [(''district'', map_option QStr district'),
             (''emergency_type'', map_option QStr emergency_type'),
             (''water_level'', map_option QStr water_level'),
             (''is_medical_needed'', map_option QBool is_medical_needed'),
             (''need_foods'', map_option QBool need_foods'),
             (''need_water'', map_option QBool need_water'),
             (''need_transport'', map_option QBool need_transport'),
             (''need_medic'', map_option QBool need_medic'),
             (''need_power'', map_option QBool need_power'),
             (''need_clothes'', map_option QBool need_clothes'),
             (''is_verified'', map_option QBool is_verified'),
             (''min_people'', map_option QInt min_people'),
             (''max_safe_hours'', map_option QInt max_safe_hours')]
      in if list_all (\<lambda>v. v = None) (map snd filters) then
           (Inl (InvalidDataException ''At least one filter must be provided''
                   [(''fields'', DStrs (map fst filters))]), db)
         else fetch_rescue_posts_filtered db filters)"

definition verify_post :: "supabase \<Rightarrow> string \<Rightarrow> (error + post) \<times> supabase" where
  "verify_post db pid =
     (if pid = [] then
        (Inl (InvalidDataException ''Post id is required'' [(''field'', DStr ''post_id'')]), db)
      else verify_rescue_post db pid)"

definition delete_post :: "supabase \<Rightarrow> string \<Rightarrow> (error + unit) \<times> supabase" where
  "delete_post db pid =
     (if pid = [] then
        (Inl (InvalidDataException ''Post id is required'' [(''field'', DStr ''post_id'')]), db)
      else delete_rescue_post db pid)"

text \<open>The condition which one pass of the loop of \<open>fetch_rescue_posts_filtered\<close> adds
  for a filter that is given.\<close>

definition cond_of :: "string \<Rightarrow> qvalue \<Rightarrow> cond" where
  "cond_of field v =
     (if field = ''min_people'' then Gte ''number_of_peoples_to_rescue'' v
      else if field = ''max_safe_hours'' then Lte ''safe_hours'' v
      else Eq field v)"

text \<open>
  The specification's reading of the filters, to be compared with the query the source
  builds: the conjunction of the supplied predicates, where \<open>district\<close>,
  \<open>emergency_type\<close>, \<open>water_level\<close>, each need flag and \<open>is_verified\<close> are equalities,
  \<open>min_people\<close> is "at least" on \<open>number_of_peoples_to_rescue\<close> and \<open>max_safe_hours\<close>
  is "at most" on \<open>safe_hours\<close>. A filter that is not supplied constrains nothing.
\<close>

definition spec_filter_conjunction ::
  "'a post_scheme \<Rightarrow> string option \<Rightarrow> string option \<Rightarrow> string option \<Rightarrow> bool option
     \<Rightarrow> bool option \<Rightarrow> bool option \<Rightarrow> bool option \<Rightarrow> bool option \<Rightarrow> bool option
     \<Rightarrow> bool option \<Rightarrow> bool option \<Rightarrow> int option \<Rightarrow> int option \<Rightarrow> bool" where
  "spec_filter_conjunction p d e w med fo wa tr me po cl ve mp ms \<longleftrightarrow>
        (case d of None \<Rightarrow> True | Some x \<Rightarrow> district p = Some x)
      \<and> (case e of None \<Rightarrow> True | Some x \<Rightarrow> emergency_type p = x)
      \<and> (case w of None \<Rightarrow> True | Some x \<Rightarrow> water_level p = Some x)
      \<and> (case med of None \<Rightarrow> True | Some x \<Rightarrow> is_medical_needed p = Some x)
      \<and> (case fo of None \<Rightarrow> True | Some x \<Rightarrow> need_foods p = Some x)
      \<and> (case wa of None \<Rightarrow> True | Some x \<Rightarrow> need_water p = Some x)
      \<and> (case tr of None \<Rightarrow> True | Some x \<Rightarrow> need_transport p = Some x)
      \<and> (case me of None \<Rightarrow> True | Some x \<Rightarrow> need_medic p = Some x)
      \<and> (case po of None \<Rightarrow> True | Some x \<Rightarrow> need_power p = Some x)
      \<and> (case cl of None \<Rightarrow> True | Some x \<Rightarrow> need_clothes p = Some x)
      \<and> (case ve of None \<Rightarrow> True | Some x \<Rightarrow> is_verified p = Some x)
      \<and> (case mp of None \<Rightarrow> True | Some x \<Rightarrow>
            (case number_of_peoples_to_rescue p of None \<Rightarrow> False | Some n \<Rightarrow> n \<ge> x))
      \<and> (case ms of None \<Rightarrow> True | Some x \<Rightarrow>
            (case safe_hours p of None \<Rightarrow> False | Some n \<Rightarrow> n \<le> x))"

section \<open>Top-critical ranking (app/services/posts_service.py)\<close>

text \<open>\<open>sorted(xs, key=f, reverse=True)\<close>: Python's sort is stable, and with
  \<open>reverse=True\<close> elements of equal key still keep their original order.\<close>

definition py_sorted_reverse :: "('a \<Rightarrow> 'k::linorder) \<Rightarrow> 'a list \<Rightarrow> 'a list" where
  "py_sorted_reverse f xs = rev (sort_key f (rev xs))"

text \<open>The slice \<open>xs[:limit]\<close>; a negative \<open>limit\<close> counts from the end.\<close>

definition py_slice_to :: "int \<Rightarrow> 'a list \<Rightarrow> 'a list" where
  "py_slice_to limit xs =
     (if limit \<ge> 0 then take (nat limit) xs
      else take (length xs - nat (- limit)) xs)"

definition list_top_critical_posts ::
  "(string \<Rightarrow> real option) \<Rightarrow> supabase \<Rightarrow> int
     \<Rightarrow> (error + post_with_images list) \<times> supabase" where
  "list_top_critical_posts timestamp db limit =
     (case fetch_rescue_posts_with_images db of
        (Inl e, db') \<Rightarrow> (Inl e, db')
      | (Inr posts, db') \<Rightarrow>
          (Inr (py_slice_to limit (py_sorted_reverse (priority_score timestamp) posts)),
           db'))"

text \<open>The route \<open>GET /posts/critical/top\<close> calls the service with the default limit 3.\<close>

definition list_critical_posts ::
  "(string \<Rightarrow> real option) \<Rightarrow> supabase
     \<Rightarrow> (error + post_with_images list) \<times> supabase" where
  "list_critical_posts timestamp db = list_top_critical_posts timestamp db 3"

text \<open>The epoch seconds of a row's creation timestamp, where the source's parse succeeds.\<close>

definition created_epoch ::
  "(string \<Rightarrow> real option) \<Rightarrow> 'a post_scheme \<Rightarrow> real option" where
  "created_epoch timestamp p =
     timestamp (replace_char CHR ''Z'' ''+00:00''
                  (case created_at p of None \<Rightarrow> [] | Some s \<Rightarrow> s))"

text \<open>Sample rows for the worked examples of the specification.\<close>

definition blank_post :: post where
  "blank_post = \<lparr>full_name = ''Test Person'', phone_number = 771234567,
     alt_phone_number = None, location = ''Colombo'', land_mark = None, district = None,
     emergency_type = ''flood'', priority_level = ''high'',
     number_of_peoples_to_rescue = None, is_medical_needed = Some False,
     water_level = None, safe_hours = None, need_foods = Some False,
     need_water = Some False, need_transport = Some False, need_medic = Some False,
     need_power = Some False, need_clothes = Some False, description = None,
     location_url = ''https://maps.example/x'', row_id = ''0'', is_verified = Some False,
     created_at = None\<rparr>"

definition post_P1 :: post where
  "post_P1 = blank_post\<lparr>row_id := ''1'', district := Some ''Colombo'', is_medical_needed := Some True,
     water_level := Some ''ankle'', number_of_peoples_to_rescue := Some 10\<rparr>"

definition post_P2 :: post where
  "post_P2 = blank_post\<lparr>row_id := ''2'', is_medical_needed := Some False,
     water_level := Some ''head'', number_of_peoples_to_rescue := Some 2\<rparr>"

text \<open>Two rows of equal score created a day apart, a timestamp parse that knows their
  two timestamps, and a database holding the four sample rows newest first.\<close>

definition sample_timestamp :: "string \<Rightarrow> real option" where
  "sample_timestamp = map_of [(''2024-01-01T00:00:00+00:00'', 1704067200),
                              (''2024-01-02T00:00:00+00:00'', 1704153600)]"

definition post_E1 :: post where
  "post_E1 = blank_post\<lparr>row_id := ''3'', district := Some ''Colombo'',
     number_of_peoples_to_rescue := Some 5,
     created_at := Some ''2024-01-01T00:00:00Z''\<rparr>"

definition post_E2 :: post where
  "post_E2 = blank_post\<lparr>row_id := ''4'', district := Some ''Galle'',
     number_of_peoples_to_rescue := Some 5,
     created_at := Some ''2024-01-02T00:00:00Z''\<rparr>"

definition sample_db :: supabase where
  "sample_db = \<lparr>rescue_posts = [post_E2, post_E1, post_P2, post_P1],
     images_rows = [\<lparr>image_url = ''https://cdn.example/a.png'', post_id = ''1''\<rparr>],
     api_error = None, requests = 0, next_id = ''5'',
     now = Some ''2024-01-03T00:00:00+00:00''\<rparr>"

section \<open>Image intake (app/services/posts_service.py)\<close>

text \<open>An uploaded file (\<open>UploadFile\<close>): its name, its declared content type, and the
  bytes which \<open>await upload.read()\<close> yields.\<close>

record upload_file =
  filename :: "string option"
  content_type :: "string option"
  content :: bytes

text \<open>The arguments of one \<open>spaces_client.put_object\<close> call. The object storage is the
  list of the requests it has accepted, oldest first.\<close>

record put_request =
  Bucket :: string
  Key :: string
  Body :: bytes
  ContentType :: string
  ACL :: string

type_synonym spaces = "put_request list"

text \<open>
  The body of the loop of \<open>upload_images_to_spaces\<close> for the file at position \<open>i\<close> of the
  batch: the checks, the object name, the write, the CDN URL. Three things come from
  outside the sources and are parameters: \<open>guess_type\<close>, the first component of
  \<open>mimetypes.guess_type\<close>; \<open>uuid4\<close>, the integer of the UUID drawn for the \<open>i\<close>-th file;
  \<open>put_fails\<close>, telling of a request that the client raises \<open>BotoCoreError\<close> or
  \<open>ClientError\<close> on it.
\<close>

definition object_key :: "settings \<Rightarrow> string \<Rightarrow> string" where
  "object_key st object_name =
     (if digitalocean_upload_prefix st \<noteq> []
      then digitalocean_upload_prefix st @ ''/'' @ object_name
      else object_name)"

definition upload_one ::
  "(string \<Rightarrow> string option) \<Rightarrow> (nat \<Rightarrow> int) \<Rightarrow> (put_request \<Rightarrow> bool) \<Rightarrow> settings
     \<Rightarrow> nat \<Rightarrow> upload_file \<Rightarrow> spaces \<Rightarrow> (error + string) \<times> spaces" where
  "upload_one guess_type uuid4 put_fails st i upload store =
     (let max_bytes = digitalocean_max_file_size_mb st * 1024 * 1024
      in case filename upload of
           None \<Rightarrow>
             (Inl (InvalidDataException ''Image file must have a filename''
                     [(''field'', DStr ''images'')]), store)
         | Some fname \<Rightarrow>
             if fname = [] then
               (Inl (InvalidDataException ''Image file must have a filename''
                       [(''field'', DStr ''images'')]), store)
             else
               let ctype = (if truthy_str (content_type upload) then content_type upload
                            else guess_type fname)
               in (case ctype of
                    None \<Rightarrow>
                      (Inl (InvalidDataException ''Only image uploads are allowed''
                              [(''field'', DStr ''images''), (''filename'', DStr fname)]), store)
                  | Some ct \<Rightarrow>
                      if ct = [] \<or> \<not> startswith ct ''image/'' then
                        (Inl (InvalidDataException ''Only image uploads are allowed''
                                [(''field'', DStr ''images''), (''filename'', DStr fname)]),
                         store)
                      else if content upload = [] then
                        (Inl (InvalidDataException ''Image file is empty''
                                [(''field'', DStr ''images''), (''filename'', DStr fname)]),
                         store)
                      else if int (length (content upload)) > max_bytes then
                        (Inl (InvalidDataException
                                (''Image file exceeds ''
                                   @ str_of_int (digitalocean_max_file_size_mb st) @ ''MB'')
                                [(''field'', DStr ''images''), (''filename'', DStr fname)]),
                         store)
                      else
                        let ext = snd (splitext fname);
                            object_name = uuid_hex (uuid4 i) @ ext;
                            key = object_key st object_name;
                            request = \<lparr>Bucket = digitalocean_bucket st, Key = key,
                                       Body = content upload, ContentType = ct,
                                       ACL = ''public-read''\<rparr>
                        in if put_fails request then
                             (Inl (AppError ''Failed to upload image'' 500
                                     [(''filename'', DStr fname)]), store)
                           else
                             (Inr (digitalocean_cdn_endpoint st @ ''/projectrakawarananew/''
                                     @ key),
                              store @ [request])))"

fun upload_loop ::
  "(string \<Rightarrow> string option) \<Rightarrow> (nat \<Rightarrow> int) \<Rightarrow> (put_request \<Rightarrow> bool) \<Rightarrow> settings
     \<Rightarrow> upload_file list \<Rightarrow> nat \<Rightarrow> string list \<Rightarrow> spaces
     \<Rightarrow> (error + string list) \<times> spaces" where
  "upload_loop guess_type uuid4 put_fails st [] i cdn_urls store = (Inr cdn_urls, store)"
| "upload_loop guess_type uuid4 put_fails st (upload # rest) i cdn_urls store =
     (case upload_one guess_type uuid4 put_fails st i upload store of
        (Inl e, store') \<Rightarrow> (Inl e, store')
      | (Inr url, store') \<Rightarrow>
          upload_loop guess_type uuid4 put_fails st rest (Suc i) (cdn_urls @ [url]) store')"

definition upload_images_to_spaces ::
  "(string \<Rightarrow> string option) \<Rightarrow> (nat \<Rightarrow> int) \<Rightarrow> (put_request \<Rightarrow> bool) \<Rightarrow> settings
     \<Rightarrow> upload_file list \<Rightarrow> spaces \<Rightarrow> (error + string list) \<times> spaces" where
  "upload_images_to_spaces guess_type uuid4 put_fails st files store =
     (if files = [] then
        (Inl (InvalidDataException ''At least one image file is required''
                [(''field'', DStr ''images'')]), store)
      else upload_loop guess_type uuid4 put_fails st files 0 [] store)"

text \<open>
  The specification's words for an invalid file: a missing filename, a content type that
  is missing or not an image type, an empty body, or a body above the configured byte
  ceiling.
\<close>

definition effective_content_type ::
  "(string \<Rightarrow> string option) \<Rightarrow> upload_file \<Rightarrow> string option" where
  "effective_content_type guess_type upload =
     (case content_type upload of
        Some ct \<Rightarrow> if ct \<noteq> [] then Some ct
                   else (case filename upload of None \<Rightarrow> None | Some f \<Rightarrow> guess_type f)
      | None \<Rightarrow> (case filename upload of None \<Rightarrow> None | Some f \<Rightarrow> guess_type f))"

definition spec_invalid_file ::
  "(string \<Rightarrow> string option) \<Rightarrow> settings \<Rightarrow> upload_file \<Rightarrow> bool" where
  "spec_invalid_file guess_type st upload =
     (filename upload = None \<or> filename upload = Some []
      \<or> (case effective_content_type guess_type upload of
            None \<Rightarrow> True | Some ct \<Rightarrow> take 6 ct \<noteq> ''image/'')
      \<or> content upload = []
      \<or> int (length (content upload)) > digitalocean_max_file_size_mb st * 1048576)"

text \<open>The write which the source issues for a valid file at position \<open>i\<close>.\<close>

definition put_request_of ::
  "(string \<Rightarrow> string option) \<Rightarrow> (nat \<Rightarrow> int) \<Rightarrow> settings \<Rightarrow> nat \<Rightarrow> upload_file
     \<Rightarrow> put_request" where
  "put_request_of guess_type uuid4 st i upload =
     \<lparr>Bucket = digitalocean_bucket st,
      Key = object_key st
              (uuid_hex (uuid4 i)
                 @ snd (splitext (case filename upload of None \<Rightarrow> [] | Some f \<Rightarrow> f))),
      Body = content upload,
      ContentType = (case effective_content_type guess_type upload of
                       None \<Rightarrow> [] | Some ct \<Rightarrow> ct),
      ACL = ''public-read''\<rparr>"

text \<open>The shape of a CDN URL as C10 words it: the CDN endpoint, the fixed path segment,
  the upload prefix with a slash (nothing for an empty prefix), the 32 hexadecimal
  digits drawn for the file, and the extension of the file's name.\<close>

definition spec_cdn_url :: "settings \<Rightarrow> (nat \<Rightarrow> int) \<Rightarrow> nat \<Rightarrow> upload_file \<Rightarrow> string" where
  "spec_cdn_url st uuid4 i upload =
     digitalocean_cdn_endpoint st @ ''/projectrakawarananew/''
       @ (if digitalocean_upload_prefix st = [] then []
          else digitalocean_upload_prefix st @ ''/'')
       @ uuid_hex (uuid4 i)
       @ snd (splitext (case filename upload of None \<Rightarrow> [] | Some f \<Rightarrow> f))"

text \<open>Sample settings, files and library stand-ins for the worked examples.\<close>

definition sample_settings :: settings where
  "sample_settings = \<lparr>digitalocean_bucket = ''rescue'',
     digitalocean_cdn_endpoint = ''https://cdn.example'',
     digitalocean_upload_prefix = ''posts_images'', digitalocean_max_file_size_mb = 5,
     admin_token = Some ''s3cret''\<rparr>"

definition sample_guess_type :: "string \<Rightarrow> string option" where
  "sample_guess_type f =
     (if snd (splitext f) = ''.png'' then Some ''image/png''
      else if snd (splitext f) = ''.jpg'' then Some ''image/jpeg''
      else None)"

definition sample_uuid4 :: "nat \<Rightarrow> int" where
  "sample_uuid4 i = 255 + int i"

definition good_file :: upload_file where
  "good_file = \<lparr>filename = Some ''flood.png'', content_type = Some ''image/png'',
     content = ''PNGDATA''\<rparr>"

definition empty_file :: upload_file where
  "empty_file = \<lparr>filename = Some ''roof.jpg'', content_type = Some ''image/jpeg'',
     content = []\<rparr>"

section \<open>Submission validator (app/schemas/rescue_posts.py)\<close>

text \<open>\<open>str.title\<close> and \<open>str.replace\<close> as the validators use them, on the ASCII field
  names they are applied to: a letter that follows a letter is lower-cased, any other
  letter is upper-cased.\<close>

definition is_ascii_upper :: "char \<Rightarrow> bool" where
  "is_ascii_upper c = (65 \<le> code_point c \<and> code_point c \<le> 90)"

definition is_ascii_lower :: "char \<Rightarrow> bool" where
  "is_ascii_lower c = (97 \<le> code_point c \<and> code_point c \<le> 122)"

definition upper_char :: "char \<Rightarrow> char" where
  "upper_char c = (if is_ascii_lower c then char_of (code_point c - 32) else c)"

fun title_from :: "bool \<Rightarrow> string \<Rightarrow> string" where
  "title_from previous_is_cased [] = []"
| "title_from previous_is_cased (c # cs) =
     (if is_ascii_lower c then
        (if previous_is_cased then c else upper_char c) # title_from True cs
      else if is_ascii_upper c then
        (if previous_is_cased then lower_char c else c) # title_from True cs
      else c # title_from False cs)"

definition title :: "string \<Rightarrow> string" where
  "title s = title_from False s"

definition field_title :: "string \<Rightarrow> string" where
  "field_title field_name = title (replace_char CHR ''_'' '' '' field_name)"

definition validate_phone :: "string \<Rightarrow> string \<Rightarrow> error + string" where
  "validate_phone number field_name =
     (let digits = filter isdigit number
      in if length digits < 7 \<or> length digits > 15 then
           Inl (InvalidDataException (field_title field_name @ '' must have 7-15 digits'')
                  [(''field'', DStr field_name)])
         else Inr digits)"

definition has_http_scheme :: "string \<Rightarrow> bool" where
  "has_http_scheme s = (startswith s ''http://'' \<or> startswith s ''https://'')"

text \<open>The loop of \<open>_validate_urls\<close>, with the list \<open>cleaned\<close> built so far.\<close>

fun validate_urls_loop :: "string list \<Rightarrow> string list \<Rightarrow> error + string list" where
  "validate_urls_loop [] cleaned = Inr cleaned"
| "validate_urls_loop (url # urls) cleaned =
     (let stripped = strip url
      in if stripped = [] then validate_urls_loop urls cleaned
         else if \<not> has_http_scheme stripped then
           Inl (InvalidDataException ''Image URLs must start with http:// or https://''
                  [(''field'', DStr ''image_urls''), (''value'', DStr url)])
         else validate_urls_loop urls (cleaned @ [stripped]))"

definition validate_urls :: "string list \<Rightarrow> error + string list" where
  "validate_urls urls =
     (case validate_urls_loop urls [] of
        Inl e \<Rightarrow> Inl e
      | Inr cleaned \<Rightarrow>
          if cleaned = [] then
            Inl (InvalidDataException
                   ''At least one image URL is required when images are provided''
                   [(''field'', DStr ''image_urls'')])
          else Inr cleaned)"

definition validate_url :: "string \<Rightarrow> string \<Rightarrow> error + string" where
  "validate_url url field_name =
     (let stripped = strip url
      in if stripped = [] then
           Inl (InvalidDataException (field_title field_name @ '' is required'')
                  [(''field'', DStr field_name)])
         else if \<not> has_http_scheme stripped then
           Inl (InvalidDataException
                  (field_title field_name @ '' must start with http:// or https://'')
                  [(''field'', DStr field_name), (''value'', DStr url)])
         else Inr stripped)"

definition validate_priority_level :: "string \<Rightarrow> error + string" where
  "validate_priority_level value =
     (let normalized = lower (strip value)
      in if normalized \<notin> {''high'', ''medium'', ''low''} then
           Inl (InvalidDataException ''Priority level must be one of high, medium, or low''
                  [(''field'', DStr ''priority_level''), (''value'', DStr value)])
         else Inr normalized)"

text \<open>
  The validation library (pydantic, version 2) is outside the sources; the model keeps
  the behaviour \<open>model_validate\<close> has on the schema \<open>RescuePostCreate\<close>. A constraint of
  \<open>Field(...)\<close> that fails gives a line error: its type with the bound of its context.
\<close>

datatype line_error =
    StringTooShort nat
  | StringTooLong nat
  | GreaterThanEqual int
  | LessThanEqual int

text \<open>
  The outcome of validating one field: the value accepted, a line error recorded by the
  library, or an exception which a validator function of the schema raised. A validator
  function decorated with \<open>field_validator\<close> runs after the constraints of the field, on
  a value that met them. The library turns a \<open>ValueError\<close> or \<open>AssertionError\<close> raised
  there into a line error; any other exception leaves \<open>model_validate\<close> at once, as
  \<open>InvalidDataException\<close> does.
\<close>

datatype 'a checked = Accepted 'a | LineError line_error | Raised error

definition constrained_str :: "nat \<Rightarrow> nat \<Rightarrow> string \<Rightarrow> string checked" where
  "constrained_str min_length max_length v =
     (if length v < min_length then LineError (StringTooShort min_length)
      else if length v > max_length then LineError (StringTooLong max_length)
      else Accepted v)"

definition constrained_int :: "int \<Rightarrow> int \<Rightarrow> int \<Rightarrow> int checked" where
  "constrained_int ge le v =
     (if v < ge then LineError (GreaterThanEqual ge)
      else if v > le then LineError (LessThanEqual le)
      else Accepted v)"

text \<open>An optional field: a key that is absent takes the default \<open>None\<close> unvalidated.\<close>

definition optional :: "('a \<Rightarrow> 'a checked) \<Rightarrow> 'a option \<Rightarrow> 'a option checked" where
  "optional check v =
     (case v of None \<Rightarrow> Accepted None | Some x \<Rightarrow> map_checked Some (check x))"

definition after_validator :: "('a \<Rightarrow> error + 'a) \<Rightarrow> 'a checked \<Rightarrow> 'a checked" where
  "after_validator f r =
     (case r of
        Accepted v \<Rightarrow> (case f v of Inl e \<Rightarrow> Raised e | Inr v' \<Rightarrow> Accepted v')
      | LineError e \<Rightarrow> LineError e
      | Raised e \<Rightarrow> Raised e)"

text \<open>The fields with a validator function: \<open>phone_number\<close>, \<open>alt_phone_number\<close>,
  \<open>priority_level\<close>, \<open>location_url\<close>, \<open>image_urls\<close>.\<close>

definition phone_number_field :: "string \<Rightarrow> string checked" where
  "phone_number_field v =
     after_validator (\<lambda>value. validate_phone value ''phone_number'')
       (constrained_str 7 20 v)"

definition alt_phone_number_field :: "string option \<Rightarrow> string option checked" where
  "alt_phone_number_field v =
     optional (\<lambda>x. after_validator (\<lambda>value. validate_phone value ''alt_phone_number'')
                       (constrained_str 7 20 x)) v"

definition priority_level_field :: "string \<Rightarrow> string checked" where
  "priority_level_field v = after_validator validate_priority_level (constrained_str 3 20 v)"

definition location_url_field :: "string \<Rightarrow> string checked" where
  "location_url_field v =
     after_validator (\<lambda>value. validate_url value ''location_url'') (constrained_str 5 2048 v)"

definition image_urls_field :: "string list option \<Rightarrow> string list option checked" where
  "image_urls_field v = optional (\<lambda>x. after_validator validate_urls (Accepted x)) v"

text \<open>
  The fields of the schema in the order of their declaration, each with the outcome of
  its validation on the payload and the place of the value in the model. A bare \<open>bool\<close>
  field of a typed payload is accepted as it is.
\<close>

definition field_outcomes ::
  "string rescue_post_create
     \<Rightarrow> (string \<times> (string rescue_post_create \<Rightarrow> string rescue_post_create) checked) list"
  where
  "field_outcomes data =
     [(''full_name'', map_checked (\<lambda>v m. m\<lparr>full_name := v\<rparr>)
         (constrained_str 3 150 (full_name data))),
      (''phone_number'', map_checked (\<lambda>v m. m\<lparr>phone_number := v\<rparr>)
         (phone_number_field (phone_number data))),
      (''alt_phone_number'', map_checked (\<lambda>v m. m\<lparr>alt_phone_number := v\<rparr>)
         (alt_phone_number_field (alt_phone_number data))),
      (''location'', map_checked (\<lambda>v m. m\<lparr>location := v\<rparr>)
         (constrained_str 3 255 (location data))),
      (''land_mark'', map_checked (\<lambda>v m. m\<lparr>land_mark := v\<rparr>)
         (optional (constrained_str 0 255) (land_mark data))),
      (''district'', map_checked (\<lambda>v m. m\<lparr>district := v\<rparr>)
         (optional (constrained_str 0 100) (district data))),
      (''emergency_type'', map_checked (\<lambda>v m. m\<lparr>emergency_type := v\<rparr>)
         (constrained_str 3 100 (emergency_type data))),
      (''priority_level'', map_checked (\<lambda>v m. m\<lparr>priority_level := v\<rparr>)
         (priority_level_field (priority_level data))),
      (''number_of_peoples_to_rescue'',
         map_checked (\<lambda>v m. m\<lparr>number_of_peoples_to_rescue := v\<rparr>)
         (optional (constrained_int 1 10000) (number_of_peoples_to_rescue data))),
      (''is_medical_needed'', Accepted (\<lambda>m. m)),
      (''water_level'', map_checked (\<lambda>v m. m\<lparr>water_level := v\<rparr>)
         (optional (constrained_str 0 50) (water_level data))),
      (''safe_hours'', map_checked (\<lambda>v m. m\<lparr>safe_hours := v\<rparr>)
         (optional (constrained_int 0 1000) (safe_hours data))),
      (''need_foods'', Accepted (\<lambda>m. m)),
      (''need_water'', Accepted (\<lambda>m. m)),
      (''need_transport'', Accepted (\<lambda>m. m)),
      (''need_medic'', Accepted (\<lambda>m. m)),
      (''need_power'', Accepted (\<lambda>m. m)),
      (''need_clothes'', Accepted (\<lambda>m. m)),
      (''description'', map_checked (\<lambda>v m. m\<lparr>description := v\<rparr>)
         (optional (constrained_str 0 2000) (description data))),
      (''location_url'', map_checked (\<lambda>v m. m\<lparr>location_url := v\<rparr>)
         (location_url_field (location_url data))),
      (''image_urls'', map_checked (\<lambda>v m. m\<lparr>image_urls := v\<rparr>)
         (image_urls_field (image_urls data)))]"

text \<open>
  \<open>model_validate\<close>: the fields are validated in order; line errors are collected and
  validation goes on with the next field; an exception raised by a validator function
  ends it. \<open>Inr\<close> holds the line errors (\<open>ValidationError\<close> when there is one) and the
  model.
\<close>

fun collect ::
  "(string \<times> ('ph rescue_post_create \<Rightarrow> 'ph rescue_post_create) checked) list
     \<Rightarrow> (string \<times> line_error) list \<Rightarrow> 'ph rescue_post_create
     \<Rightarrow> error + (string \<times> line_error) list \<times> 'ph rescue_post_create" where
  "collect [] errors model = Inr (errors, model)"
| "collect ((name, Accepted set_field) # rest) errors model =
     collect rest errors (set_field model)"
| "collect ((name, LineError e) # rest) errors model =
     collect rest (errors @ [(name, e)]) model"
| "collect ((name, Raised e) # rest) errors model = Inl e"

definition model_validate ::
  "string rescue_post_create
     \<Rightarrow> error + (string \<times> line_error) list \<times> string rescue_post_create" where
  "model_validate data = collect (field_outcomes data) [] data"

definition friendly_message :: "line_error \<Rightarrow> string" where
  "friendly_message err =
     (case err of
        StringTooShort n \<Rightarrow> ''Must be at least '' @ str_of_int (int n) @ '' characters long''
      | StringTooLong n \<Rightarrow> ''Must be at most '' @ str_of_int (int n) @ '' characters long''
      | GreaterThanEqual n \<Rightarrow> ''Must be greater than or equal to '' @ str_of_int n
      | LessThanEqual n \<Rightarrow> ''Must be less than or equal to '' @ str_of_int n)"

definition format_pydantic_errors ::
  "(string \<times> line_error) list \<Rightarrow> (string \<times> string) list" where
  "format_pydantic_errors errors = map (\<lambda>(loc, err). (loc, friendly_message err)) errors"

definition validate_with_app_error ::
  "string rescue_post_create \<Rightarrow> error + string rescue_post_create" where
  "validate_with_app_error data =
     (case model_validate data of
        Inl raised \<Rightarrow> Inl raised
      | Inr (errors, model) \<Rightarrow>
          if errors = [] then Inr model
          else Inl (InvalidDataException ''Invalid rescue post data''
                      [(''errors'', DErrors (format_pydantic_errors errors))]))"

section \<open>The validator on phone numbers of any alphabet\<close>

text \<open>
  A Python string holds any Unicode character, and both \<open>str.isdigit\<close> and \<open>int\<close>
  know digits beyond the code points 0..255 (the Arabic-Indic digits U+0660..U+0669,
  for one). For the path on which a post is created the phone fields are therefore
  lists over an arbitrary alphabet \<open>'c\<close>, and what the Unicode character database says
  of a character is a parameter \<open>classify\<close>: a decimal digit with its value (what
  \<open>int\<close> accepts), a digit that is not decimal (a superscript: \<open>isdigit\<close> holds, \<open>int\<close>
  refuses it), or no digit.
\<close>

datatype digit = D0 | D1 | D2 | D3 | D4 | D5 | D6 | D7 | D8 | D9

datatype digit_class = Decimal digit | OtherDigit | NotDigit

fun digit_int :: "digit \<Rightarrow> int" where
  "digit_int D0 = 0"
| "digit_int D1 = 1"
| "digit_int D2 = 2"
| "digit_int D3 = 3"
| "digit_int D4 = 4"
| "digit_int D5 = 5"
| "digit_int D6 = 6"
| "digit_int D7 = 7"
| "digit_int D8 = 8"
| "digit_int D9 = 9"

fun digit_ascii :: "digit \<Rightarrow> char" where
  "digit_ascii D0 = CHR ''0''"
| "digit_ascii D1 = CHR ''1''"
| "digit_ascii D2 = CHR ''2''"
| "digit_ascii D3 = CHR ''3''"
| "digit_ascii D4 = CHR ''4''"
| "digit_ascii D5 = CHR ''5''"
| "digit_ascii D6 = CHR ''6''"
| "digit_ascii D7 = CHR ''7''"
| "digit_ascii D8 = CHR ''8''"
| "digit_ascii D9 = CHR ''9''"

text \<open>\<open>ch.isdigit()\<close> and \<open>ch.isdecimal()\<close> of a character of the alphabet.\<close>

definition isdigit_u :: "('c \<Rightarrow> digit_class) \<Rightarrow> 'c \<Rightarrow> bool" where
  "isdigit_u classify ch = (classify ch \<noteq> NotDigit)"

definition isdecimal_u :: "('c \<Rightarrow> digit_class) \<Rightarrow> 'c \<Rightarrow> bool" where
  "isdecimal_u classify ch = (case classify ch of Decimal d \<Rightarrow> True | _ \<Rightarrow> False)"

text \<open>The classification of the code points 0..255, from \<open>isdecimal\<close> and \<open>isdigit\<close>
  above.\<close>

definition char_class :: "char \<Rightarrow> digit_class" where
  "char_class c =
     (if isdecimal c then Decimal ([D0, D1, D2, D3, D4, D5, D6, D7, D8, D9] ! (code_point c - 48))
      else if isdigit c then OtherDigit
      else NotDigit)"

text \<open>\<open>_validate_phone\<close>, the two phone fields, the fields of the schema and
  \<open>validate_with_app_error\<close> as above, with the phone numbers over the alphabet.\<close>

definition validate_phone_u ::
  "('c \<Rightarrow> digit_class) \<Rightarrow> 'c list \<Rightarrow> string \<Rightarrow> error + 'c list" where
  "validate_phone_u classify number field_name =
     (let digits = filter (isdigit_u classify) number
      in if length digits < 7 \<or> length digits > 15 then
           Inl (InvalidDataException (field_title field_name @ '' must have 7-15 digits'')
                  [(''field'', DStr field_name)])
         else Inr digits)"

definition constrained_str_u :: "nat \<Rightarrow> nat \<Rightarrow> 'c list \<Rightarrow> 'c list checked" where
  "constrained_str_u min_length max_length v =
     (if length v < min_length then LineError (StringTooShort min_length)
      else if length v > max_length then LineError (StringTooLong max_length)
      else Accepted v)"

definition phone_number_field_u :: "('c \<Rightarrow> digit_class) \<Rightarrow> 'c list \<Rightarrow> 'c list checked" where
  "phone_number_field_u classify v =
     after_validator (\<lambda>value. validate_phone_u classify value ''phone_number'')
       (constrained_str_u 7 20 v)"

definition alt_phone_number_field_u ::
  "('c \<Rightarrow> digit_class) \<Rightarrow> 'c list option \<Rightarrow> 'c list option checked" where
  "alt_phone_number_field_u classify v =
     optional (\<lambda>x. after_validator
                      (\<lambda>value. validate_phone_u classify value ''alt_phone_number'')
                      (constrained_str_u 7 20 x)) v"

definition field_outcomes_u ::
  "('c \<Rightarrow> digit_class) \<Rightarrow> 'c list rescue_post_create
     \<Rightarrow> (string \<times> ('c list rescue_post_create \<Rightarrow> 'c list rescue_post_create) checked) list"
  where
  "field_outcomes_u classify data =
     [(''full_name'', map_checked (\<lambda>v m. m\<lparr>full_name := v\<rparr>)
         (constrained_str 3 150 (full_name data))),
      (''phone_number'', map_checked (\<lambda>v m. m\<lparr>phone_number := v\<rparr>)
         (phone_number_field_u classify (phone_number data))),
      (''alt_phone_number'', map_checked (\<lambda>v m. m\<lparr>alt_phone_number := v\<rparr>)
         (alt_phone_number_field_u classify (alt_phone_number data))),
      (''location'', map_checked (\<lambda>v m. m\<lparr>location := v\<rparr>)
         (constrained_str 3 255 (location data))),
      (''land_mark'', map_checked (\<lambda>v m. m\<lparr>land_mark := v\<rparr>)
         (optional (constrained_str 0 255) (land_mark data))),
      (''district'', map_checked (\<lambda>v m. m\<lparr>district := v\<rparr>)
         (optional (constrained_str 0 100) (district data))),
      (''emergency_type'', map_checked (\<lambda>v m. m\<lparr>emergency_type := v\<rparr>)
         (constrained_str 3 100 (emergency_type data))),
      (''priority_level'', map_checked (\<lambda>v m. m\<lparr>priority_level := v\<rparr>)
         (priority_level_field (priority_level data))),
      (''number_of_peoples_to_rescue'',
         map_checked (\<lambda>v m. m\<lparr>number_of_peoples_to_rescue := v\<rparr>)
         (optional (constrained_int 1 10000) (number_of_peoples_to_rescue data))),
      (''is_medical_needed'', Accepted (\<lambda>m. m)),
      (''water_level'', map_checked (\<lambda>v m. m\<lparr>water_level := v\<rparr>)
         (optional (constrained_str 0 50) (water_level data))),
      (''safe_hours'', map_checked (\<lambda>v m. m\<lparr>safe_hours := v\<rparr>)
         (optional (constrained_int 0 1000) (safe_hours data))),
      (''need_foods'', Accepted (\<lambda>m. m)),
      (''need_water'', Accepted (\<lambda>m. m)),
      (''need_transport'', Accepted (\<lambda>m. m)),
      (''need_medic'', Accepted (\<lambda>m. m)),
      (''need_power'', Accepted (\<lambda>m. m)),
      (''need_clothes'', Accepted (\<lambda>m. m)),
      (''description'', map_checked (\<lambda>v m. m\<lparr>description := v\<rparr>)
         (optional (constrained_str 0 2000) (description data))),
      (''location_url'', map_checked (\<lambda>v m. m\<lparr>location_url := v\<rparr>)
         (location_url_field (location_url data))),
      (''image_urls'', map_checked (\<lambda>v m. m\<lparr>image_urls := v\<rparr>)
         (image_urls_field (image_urls data)))]"

definition model_validate_u ::
  "('c \<Rightarrow> digit_class) \<Rightarrow> 'c list rescue_post_create
     \<Rightarrow> error + (string \<times> line_error) list \<times> 'c list rescue_post_create" where
  "model_validate_u classify data = collect (field_outcomes_u classify data) [] data"

definition validate_with_app_error_u ::
  "('c \<Rightarrow> digit_class) \<Rightarrow> 'c list rescue_post_create
     \<Rightarrow> error + 'c list rescue_post_create" where
  "validate_with_app_error_u classify data =
     (case model_validate_u classify data of
        Inl raised \<Rightarrow> Inl raised
      | Inr (errors, model) \<Rightarrow>
          if errors = [] then Inr model
          else Inl (InvalidDataException ''Invalid rescue post data''
                      [(''errors'', DErrors (format_pydantic_errors errors))]))"

section \<open>Creating a post (app/services/posts_service.py, app/repositories)\<close>

text \<open>
  \<open>int(s)\<close> on a string of digit characters, the only arguments the source passes: a
  non-empty string of decimal digits, of whatever script, denotes the number its digit
  values write in base 10; a string holding a digit that is not decimal raises
  \<open>ValueError\<close> (whose text, which quotes the string, is shortened to its fixed part).
\<close>

definition digit_value :: "('c \<Rightarrow> digit_class) \<Rightarrow> 'c \<Rightarrow> int" where
  "digit_value classify ch = (case classify ch of Decimal d \<Rightarrow> digit_int d | _ \<Rightarrow> 0)"

definition digits_value :: "('c \<Rightarrow> digit_class) \<Rightarrow> 'c list \<Rightarrow> int" where
  "digits_value classify s = foldl (\<lambda>n ch. 10 * n + digit_value classify ch) 0 s"

definition py_int :: "('c \<Rightarrow> digit_class) \<Rightarrow> 'c list \<Rightarrow> error + int" where
  "py_int classify s =
     (if s \<noteq> [] \<and> list_all (isdecimal_u classify) s then Inr (digits_value classify s)
      else Inl (PyValueError ''invalid literal for int() with base 10''))"

text \<open>\<open>validated.model_dump(exclude={"image_urls"})\<close> with the two phone entries
  replaced by the ints.\<close>

definition post_payload_of ::
  "'ph rescue_post_create \<Rightarrow> int \<Rightarrow> int option \<Rightarrow> (int, bool) post_fields" where
  "post_payload_of validated phone alt_phone =
     \<lparr>full_name = full_name validated, phone_number = phone,
      alt_phone_number = alt_phone, location = location validated,
      land_mark = land_mark validated, district = district validated,
      emergency_type = emergency_type validated,
      priority_level = priority_level validated,
      number_of_peoples_to_rescue = number_of_peoples_to_rescue validated,
      is_medical_needed = is_medical_needed validated,
      water_level = water_level validated, safe_hours = safe_hours validated,
      need_foods = need_foods validated, need_water = need_water validated,
      need_transport = need_transport validated, need_medic = need_medic validated,
      need_power = need_power validated, need_clothes = need_clothes validated,
      description = description validated, location_url = location_url validated\<rparr>"

text \<open>\<open>table("rescue_posts").insert(payload).execute()\<close>: the database stores the
  payload with the columns it assigns (\<open>id\<close>, \<open>created_at\<close>, and \<open>is_verified\<close>, false by
  default) and answers with the stored row.\<close>

definition execute_insert_post ::
  "supabase \<Rightarrow> (int, bool) post_fields \<Rightarrow> (string + post list) \<times> supabase" where
  "execute_insert_post db payload =
     (case api_error db of
        Some e \<Rightarrow> (Inl e, tick db)
      | None \<Rightarrow>
          (let row = \<lparr>full_name = full_name payload, phone_number = phone_number payload,
                 alt_phone_number = alt_phone_number payload, location = location payload,
                 land_mark = land_mark payload, district = district payload,
                 emergency_type = emergency_type payload,
                 priority_level = priority_level payload,
                 number_of_peoples_to_rescue = number_of_peoples_to_rescue payload,
                 is_medical_needed = Some (is_medical_needed payload),
                 water_level = water_level payload, safe_hours = safe_hours payload,
                 need_foods = Some (need_foods payload),
                 need_water = Some (need_water payload),
                 need_transport = Some (need_transport payload),
                 need_medic = Some (need_medic payload),
                 need_power = Some (need_power payload),
                 need_clothes = Some (need_clothes payload),
                 description = description payload, location_url = location_url payload,
                 row_id = next_id db, is_verified = Some False, created_at = now db\<rparr>
           in (Inr [row], tick (db\<lparr>rescue_posts := row # rescue_posts db\<rparr>))))"

definition execute_insert_images ::
  "supabase \<Rightarrow> image list \<Rightarrow> (string + image list) \<times> supabase" where
  "execute_insert_images db rows =
     (case api_error db of
        Some e \<Rightarrow> (Inl e, tick db)
      | None \<Rightarrow> (Inr rows, tick (db\<lparr>images_rows := images_rows db @ rows\<rparr>)))"

definition insert_rescue_post ::
  "supabase \<Rightarrow> (int, bool) post_fields \<Rightarrow> (error + post) \<times> supabase" where
  "insert_rescue_post db payload =
     (case execute_insert_post db payload of
        (Inl exc, db') \<Rightarrow>
          (Inl (AppError ''Failed to save rescue post'' 500 [(''error'', DStr exc)]), db')
      | (Inr data, db') \<Rightarrow>
          (case data of
             [] \<Rightarrow> (Inl (AppError ''Failed to save rescue post'' 500
                           [(''error'', DStr ''No data returned from insert'')]), db')
           | row # _ \<Rightarrow> (Inr row, db')))"

definition insert_images :: "supabase \<Rightarrow> image list \<Rightarrow> (error + image list) \<times> supabase" where
  "insert_images db images_payload =
     (if images_payload = [] then (Inr [], db)
      else case execute_insert_images db images_payload of
             (Inl exc, db') \<Rightarrow>
               (Inl (AppError ''Failed to save images'' 500 [(''error'', DStr exc)]), db')
           | (Inr data, db') \<Rightarrow>
               if data = [] then
                 (Inl (AppError ''Failed to save images'' 500
                         [(''error'', DStr ''No data returned from insert'')]), db')
               else (Inr data, db'))"

text \<open>
  \<open>create_rescue_post_with_images\<close>: validation, upload, the two inserts, with the
  phone numbers of the payload over any alphabet (the other texts of the payload, which
  do not bear on the phone numbers, stay strings of the code points 0..255). The result is
  the pair of the stored post and its image rows, with the database and the object
  storage as the call leaves them. The notification which follows the inserts is best
  effort: it swallows its exceptions and changes neither the result nor the two stores,
  and is left out.
\<close>

definition create_rescue_post_with_images ::
  "('c \<Rightarrow> digit_class) \<Rightarrow> (string \<Rightarrow> string option) \<Rightarrow> (nat \<Rightarrow> int)
     \<Rightarrow> (put_request \<Rightarrow> bool) \<Rightarrow> settings \<Rightarrow> 'c list rescue_post_create
     \<Rightarrow> upload_file list \<Rightarrow> supabase \<Rightarrow> spaces
     \<Rightarrow> (error + post \<times> image list) \<times> supabase \<times> spaces" where
  "create_rescue_post_with_images classify guess_type uuid4 put_fails st payload files db
       store =
     (case validate_with_app_error_u classify payload of
        Inl e \<Rightarrow> (Inl e, db, store)
      | Inr validated \<Rightarrow>
     (case upload_images_to_spaces guess_type uuid4 put_fails st files store of
        (Inl e, store') \<Rightarrow> (Inl e, db, store')
      | (Inr urls, store') \<Rightarrow>
     (case py_int classify (phone_number validated) of
        Inl e \<Rightarrow> (Inl e, db, store')
      | Inr phone \<Rightarrow>
     (case (case alt_phone_number validated of
              None \<Rightarrow> Inr None
            | Some a \<Rightarrow> (case py_int classify a of Inl e \<Rightarrow> Inl e
                         | Inr n \<Rightarrow> Inr (Some n))) of
        Inl e \<Rightarrow> (Inl e, db, store')
      | Inr alt_phone \<Rightarrow>
     (case insert_rescue_post db (post_payload_of validated phone alt_phone) of
        (Inl e, db') \<Rightarrow> (Inl e, db', store')
      | (Inr post_record, db') \<Rightarrow>
     (case insert_images db'
             (map (\<lambda>url. \<lparr>image_url = url, post_id = row_id post_record\<rparr>) urls) of
        (Inl e, db'') \<Rightarrow> (Inl e, db'', store')
      | (Inr image_records, db'') \<Rightarrow>
          (Inr (post_record, image_records), db'', store')))))))"

text \<open>The ASCII digit of a decimal digit of the alphabet (the first step of \<open>int\<close> on a
  string that is not ASCII).\<close>

definition ascii_digit :: "('c \<Rightarrow> digit_class) \<Rightarrow> 'c \<Rightarrow> char" where
  "ascii_digit classify ch = (case classify ch of Decimal d \<Rightarrow> digit_ascii d | _ \<Rightarrow> CHR ''?'')"

text \<open>What a digit string keeps of its digits as an int printed back: the string without
  its leading zeros (\<open>0\<close> when nothing else is left).\<close>

definition without_leading_zeros :: "string \<Rightarrow> string" where
  "without_leading_zeros d =
     (if dropWhile (\<lambda>c. c = CHR ''0'') d = [] then ''0''
      else dropWhile (\<lambda>c. c = CHR ''0'') d)"

text \<open>A payload that meets every rule, and the two that the examples vary.\<close>

definition valid_payload :: "string rescue_post_create" where
  "valid_payload = \<lparr>full_name = ''Nimal Perera'', phone_number = ''0771234567'',
     alt_phone_number = None, location = ''12 Lake Road, Kaduwela'', land_mark = None,
     district = Some ''Colombo'', emergency_type = ''flood'', priority_level = ''High'',
     number_of_peoples_to_rescue = Some 4, is_medical_needed = False,
     water_level = Some ''waist'', safe_hours = Some 3, need_foods = True,
     need_water = True, need_transport = False, need_medic = False, need_power = False,
     need_clothes = False, description = None,
     location_url = ''https://maps.example/?q=6.95,79.98'', image_urls = None\<rparr>"

definition two_violations_payload :: "string rescue_post_create" where
  "two_violations_payload = valid_payload\<lparr>full_name := ''ab'', phone_number := ''abcdefg''\<rparr>"

definition two_lengths_payload :: "string rescue_post_create" where
  "two_lengths_payload = valid_payload\<lparr>full_name := ''ab'', phone_number := ''12345''\<rparr>"

definition never_fails :: "put_request \<Rightarrow> bool" where
  "never_fails request = False"

text \<open>The phone number of the stored post, when the call has succeeded; and the row and
  the image row which the database holds after the valid payload has been submitted
  with one good file to the sample database.\<close>

definition created_phone ::
  "(error + post \<times> image list) \<times> supabase \<times> spaces \<Rightarrow> int option" where
  "created_phone result =
     (case fst result of Inl e \<Rightarrow> None | Inr (post_record, image_records) \<Rightarrow>
        Some (phone_number post_record))"

definition stored_valid_post :: post where
  "stored_valid_post = \<lparr>full_name = ''Nimal Perera'', phone_number = 771234567,
     alt_phone_number = None, location = ''12 Lake Road, Kaduwela'', land_mark = None,
     district = Some ''Colombo'', emergency_type = ''flood'', priority_level = ''high'',
     number_of_peoples_to_rescue = Some 4, is_medical_needed = Some False,
     water_level = Some ''waist'', safe_hours = Some 3, need_foods = Some True,
     need_water = Some True, need_transport = Some False, need_medic = Some False,
     need_power = Some False, need_clothes = Some False, description = None,
     location_url = ''https://maps.example/?q=6.95,79.98'', row_id = ''5'',
     is_verified = Some False, created_at = Some ''2024-01-03T00:00:00+00:00''\<rparr>"

definition stored_valid_image :: image where
  "stored_valid_image = \<lparr>image_url =
     ''https://cdn.example/projectrakawarananew/posts_images/000000000000000000000000000000ff.png'',
     post_id = ''5''\<rparr>"

text \<open>A phone number in Arabic-Indic digits, as code points, in an otherwise valid
  payload; and the part of the Unicode classification the example needs: the ASCII and
  the Arabic-Indic decimal digits, and the three superscript digits.\<close>

definition unicode_sample_class :: "nat \<Rightarrow> digit_class" where
  "unicode_sample_class cp =
     (if 48 \<le> cp \<and> cp \<le> 57
        then Decimal ([D0, D1, D2, D3, D4, D5, D6, D7, D8, D9] ! (cp - 48))
      else if 1632 \<le> cp \<and> cp \<le> 1641
        then Decimal ([D0, D1, D2, D3, D4, D5, D6, D7, D8, D9] ! (cp - 1632))
      else if cp = 178 \<or> cp = 179 \<or> cp = 185 then OtherDigit
      else NotDigit)"

definition arabic_indic_payload :: "nat list rescue_post_create" where
  "arabic_indic_payload = \<lparr>full_name = ''Nimal Perera'',
     phone_number = [1632, 1639, 1639, 1633, 1634, 1635, 1636, 1637, 1638, 1639],
     alt_phone_number = None, location = ''12 Lake Road, Kaduwela'', land_mark = None,
     district = Some ''Colombo'', emergency_type = ''flood'', priority_level = ''High'',
     number_of_peoples_to_rescue = Some 4, is_medical_needed = False,
     water_level = Some ''waist'', safe_hours = Some 3, need_foods = True,
     need_water = True, need_transport = False, need_medic = False, need_power = False,
     need_clothes = False, description = None,
     location_url = ''https://maps.example/?q=6.95,79.98'', image_urls = None\<rparr>"

section \<open>Verified properties\<close>

subsection \<open>C1: the criticality score\<close>

lemma truthy_iff: "truthy b \<longleftrightarrow> b = Some True"
  by (cases b) auto

lemma fold_bonus:
  "fold (\<lambda>x (s::real). if P x then s + k else s) xs s0
     = s0 + k * real (length (filter P xs))"
  by (induction xs arbitrary: s0) (simp_all add: algebra_simps)

lemma if_add_shift: "(if c then s + (k::real) else s) = s + (if c then k else 0)"
  by simp

lemma water_map_get_table:
  "water_map_get w =
     (if w = ''head'' then 9 else if w = ''neck'' then 8 else if w = ''chest'' then 7
      else if w = ''shoulder'' then 6 else if w = ''waist'' then 5
      else if w = ''knee'' then 3 else if w = ''ankle'' then 1 else 0)"
  by (simp add: water_map_get_def water_map_def)

lemma priority_score_fst:
  "fst (priority_score ts p) =
      real_of_int (min (case number_of_peoples_to_rescue p of None \<Rightarrow> 0 | Some n \<Rightarrow> n) 50) * 2
    + (let w = lower (case water_level p of None \<Rightarrow> [] | Some s \<Rightarrow> s)
       in if w = ''head'' then 9 else if w = ''neck'' then 8 else if w = ''chest'' then 7
          else if w = ''shoulder'' then 6 else if w = ''waist'' then 5
          else if w = ''knee'' then 3 else if w = ''ankle'' then 1 else 0)
    + (if is_medical_needed p = Some True then 10 else 0)
    + (if need_medic p = Some True then 6 else 0)
    + 2 * real (length (filter (\<lambda>flag. flag = Some True)
          [need_foods p, need_water p, need_transport p, need_power p, need_clothes p]))
    + (case safe_hours p of
         None \<Rightarrow> 0
       | Some h \<Rightarrow> if h \<le> 1 then 6 else if h \<le> 4 then 4 else if h \<le> 12 then 2 else 0)
    + (if is_verified p = Some True then 1 else 0)"
proof -
  have people: "(case number_of_peoples_to_rescue p of
                      None \<Rightarrow> 0 | Some n \<Rightarrow> if n \<noteq> 0 then n else 0)
     = (case number_of_peoples_to_rescue p of None \<Rightarrow> 0 | Some n \<Rightarrow> n)"
    by (simp split: option.split)
  have flags: "length (filter (\<lambda>need. truthy (need p)) needs)
     = length (filter (\<lambda>flag. flag = Some True)
          [need_foods p, need_water p, need_transport p, need_power p, need_clothes p])"
    by (simp add: needs_def truthy_iff)
  have safe: "\<And>s::real. (case safe_hours p of
                     None \<Rightarrow> s
                   | Some h \<Rightarrow> if h \<le> 1 then s + 6
                              else if h \<le> 4 then s + 4
                              else if h \<le> 12 then s + 2
                              else s)
      = s + (case safe_hours p of
         None \<Rightarrow> 0
       | Some h \<Rightarrow> if h \<le> 1 then 6 else if h \<le> 4 then 4 else if h \<le> 12 then 2 else 0)"
    by (simp split: option.split)
  show ?thesis
    unfolding priority_score_def Let_def fst_conv people fold_bonus flags safe
      water_map_get_table
    by (simp only: if_add_shift truthy_iff)
qed

text \<open>
  C1. The score is the sum of: the people count capped at 50, times 2 (a missing count is
  0); the water-level value of the lower-cased tag (head 9, neck 8, chest 7, shoulder 6,
  waist 5, knee 3, ankle 1, anything else or no tag 0); 10 for \<open>is_medical_needed\<close>; 6
  for \<open>need_medic\<close>; 2 for each true flag among \<open>need_foods\<close>, \<open>need_water\<close>,
  \<open>need_transport\<close>, \<open>need_power\<close>, \<open>need_clothes\<close>; the safe-hours bonus (6 up to 1
  hour, 4 up to 4, 2 up to 12, else 0), absent when \<open>safe_hours\<close> is no integer; and 1
  for \<open>is_verified\<close>. The score depends on the row only (not on how timestamps parse).
  The post with medical need, water level "ankle" and 10 people scores 31; the post
  without medical need, water level "head" and 2 people scores 13.
\<close>

theorem priority_score_is_weighted_sum:
  "fst (priority_score ts p) =
      real_of_int (min (case number_of_peoples_to_rescue p of None \<Rightarrow> 0 | Some n \<Rightarrow> n) 50) * 2
    + (let w = lower (case water_level p of None \<Rightarrow> [] | Some s \<Rightarrow> s)
       in if w = ''head'' then 9 else if w = ''neck'' then 8 else if w = ''chest'' then 7
          else if w = ''shoulder'' then 6 else if w = ''waist'' then 5
          else if w = ''knee'' then 3 else if w = ''ankle'' then 1 else 0)
    + (if is_medical_needed p = Some True then 10 else 0)
    + (if need_medic p = Some True then 6 else 0)
    + 2 * real (length (filter (\<lambda>flag. flag = Some True)
          [need_foods p, need_water p, need_transport p, need_power p, need_clothes p]))
    + (case safe_hours p of
         None \<Rightarrow> 0
       | Some h \<Rightarrow> if h \<le> 1 then 6 else if h \<le> 4 then 4 else if h \<le> 12 then 2 else 0)
    + (if is_verified p = Some True then 1 else 0)
   \<and> fst (priority_score ts p) = fst (priority_score ts' p)
   \<and> fst (priority_score ts post_P1) = 31
   \<and> fst (priority_score ts post_P2) = 13"
proof (intro conjI)
  show "fst (priority_score ts post_P1) = 31"
    by (simp add: priority_score_fst post_P1_def blank_post_def lower_def lower_char_def
        code_point_def)
  show "fst (priority_score ts post_P2) = 13"
    by (simp add: priority_score_fst post_P2_def blank_post_def lower_def lower_char_def
        code_point_def)
  show "fst (priority_score ts p) = fst (priority_score ts' p)"
    by (simp only: priority_score_fst)
qed (rule priority_score_fst)

subsection \<open>C2: the top-critical ranking\<close>

lemma py_sorted_reverse_mset: "mset (py_sorted_reverse f xs) = mset xs"
  by (simp add: py_sorted_reverse_def)

lemma py_sorted_reverse_descending:
  "sorted_wrt (\<lambda>a b. f a \<ge> f b) (py_sorted_reverse f xs)"
proof -
  have "sorted (map f (sort_key f (rev xs)))" by (rule sorted_sort_key)
  then have "sorted_wrt (\<lambda>a b. f a \<le> f b) (sort_key f (rev xs))"
    by (simp add: sorted_map)
  then show ?thesis
    by (simp add: py_sorted_reverse_def sorted_wrt_rev)
qed

lemma py_sorted_reverse_stable:
  "filter (\<lambda>x. f x = k) (py_sorted_reverse f xs) = filter (\<lambda>x. f x = k) xs"
proof -
  have "filter (\<lambda>x. f x = k) (py_sorted_reverse f xs)
      = rev (filter (\<lambda>x. f x = k) (sort_key f (rev xs)))"
    by (simp add: py_sorted_reverse_def rev_filter)
  also have "\<dots> = rev (filter (\<lambda>x. f x = k) (rev xs))"
    by (simp only: sort_key_stable)
  also have "\<dots> = filter (\<lambda>x. f x = k) xs"
    by (simp add: rev_filter)
  finally show ?thesis .
qed

lemma priority_score_snd:
  "snd (priority_score ts p) = (case created_epoch ts p of None \<Rightarrow> 0 | Some t \<Rightarrow> - t)"
  by (simp add: priority_score_def created_epoch_def Let_def split: option.split)

lemma fetch_all_ok:
  "api_error db = None \<Longrightarrow>
   fetch_rescue_posts_with_images db = (Inr (map (embed_images db) (rescue_posts db)), tick db)"
  by (simp add: fetch_rescue_posts_with_images_def execute_select_def)

text \<open>
  C2. With the rows fetched and a limit \<open>N \<ge> 0\<close>, the top-critical operation returns the
  first \<open>N\<close> elements (the first 3 through the route's default) of the fetched list
  sorted descending by the pair (score, tiebreak): a permutation of the fetched rows,
  descending in the lexicographic order of the pairs, rows of equal pair in their fetched
  order. The tiebreak is the negated epoch seconds of the creation timestamp where it
  parses and exactly 0 where it does not; so of two rows of equal score whose timestamps
  parse, the one placed first is not the later one.
\<close>

theorem top_critical_is_sorted_prefix:
  assumes ok: "api_error db = None" and lim: "0 \<le> limit"
  shows "\<exists>S. fst (list_top_critical_posts ts db limit) = Inr (take (nat limit) S)
           \<and> fst (list_critical_posts ts db) = Inr (take 3 S)
           \<and> mset S = mset (map (embed_images db) (rescue_posts db))
           \<and> sorted_wrt (\<lambda>a b. priority_score ts a \<ge> priority_score ts b) S
           \<and> (\<forall>k. filter (\<lambda>p. priority_score ts p = k) S
                  = filter (\<lambda>p. priority_score ts p = k)
                      (map (embed_images db) (rescue_posts db)))
           \<and> (\<forall>p \<in> set S. snd (priority_score ts p)
                  = (case created_epoch ts p of None \<Rightarrow> 0 | Some t \<Rightarrow> - t))
           \<and> (\<forall>i j t1 t2. i < j \<and> j < length S
                 \<and> fst (priority_score ts (S ! i)) = fst (priority_score ts (S ! j))
                 \<and> created_epoch ts (S ! i) = Some t1 \<and> created_epoch ts (S ! j) = Some t2
                 \<longrightarrow> t1 \<le> t2)"
proof -
  let ?key = "priority_score ts :: post_with_images \<Rightarrow> real \<times> real"
  let ?posts = "map (embed_images db) (rescue_posts db)"
  let ?S = "py_sorted_reverse ?key ?posts"
  have desc: "sorted_wrt (\<lambda>a b. ?key a \<ge> ?key b) ?S"
    by (rule py_sorted_reverse_descending)
  have tie: "t1 \<le> t2"
    if "i < j" "j < length ?S" "fst (?key (?S ! i)) = fst (?key (?S ! j))"
       "created_epoch ts (?S ! i) = Some t1" "created_epoch ts (?S ! j) = Some t2"
    for i j t1 t2
  proof -
    from desc that(1,2) have "?key (?S ! j) \<le> ?key (?S ! i)"
      by (simp add: sorted_wrt_iff_nth_less)
    then have "snd (?key (?S ! j)) \<le> snd (?key (?S ! i))"
      using that(3) by (cases "?key (?S ! i)"; cases "?key (?S ! j)") auto
    then show ?thesis
      using that(4,5) by (simp add: priority_score_snd)
  qed
  have top: "fst (list_top_critical_posts ts db limit) = Inr (take (nat limit) ?S)"
    using lim by (simp add: list_top_critical_posts_def fetch_all_ok [OF ok] py_slice_to_def)
  have route: "fst (list_critical_posts ts db) = Inr (take 3 ?S)"
    by (simp add: list_critical_posts_def list_top_critical_posts_def fetch_all_ok [OF ok]
        py_slice_to_def)
  show ?thesis
    using top route desc tie py_sorted_reverse_mset [of ?key ?posts]
      py_sorted_reverse_stable [of ?key _ ?posts] priority_score_snd [of ts]
    by (intro exI [of _ ?S]) blast
qed

theorem top_critical_is_sorted_prefix_witness:
  "api_error sample_db = None \<and> (0::int) \<le> 3
   \<and> (\<exists>S. fst (list_top_critical_posts sample_timestamp sample_db 3) = Inr (take (nat 3) S)
          \<and> mset S = mset (map (embed_images sample_db) (rescue_posts sample_db)))
   \<and> (case fst (list_top_critical_posts sample_timestamp sample_db 3) of
         Inr ps \<Rightarrow> map row_id ps | Inl e \<Rightarrow> []) = [''1'', ''2'', ''3'']"
proof -
  have h1: "api_error sample_db = None"
    by (simp add: sample_db_def)
  have h2: "(0::int) \<le> 3"
    by simp
  have ranked: "(case fst (list_top_critical_posts sample_timestamp sample_db 3) of
         Inr ps \<Rightarrow> map row_id ps | Inl e \<Rightarrow> []) = [''1'', ''2'', ''3'']"
    by code_simp
  from top_critical_is_sorted_prefix [OF h1 h2, of sample_timestamp] h1 h2 ranked
  show ?thesis by blast
qed

subsection \<open>C7: the admin gate\<close>

text \<open>
  C7. With the admin secret unconfigured the gate fails with status 500 whatever token is
  supplied; with the secret configured, a missing or different token fails with status
  401; and access is granted exactly when the secret is configured and the supplied token
  equals it.
\<close>

theorem require_admin_token_gate:
  "(\<not> secret_configured st \<longrightarrow>
      (\<exists>m d. require_admin_token st tok = Inl (AppError m 500 d)))
   \<and> (secret_configured st \<and> (tok = None \<or> tok \<noteq> admin_token st) \<longrightarrow>
      (\<exists>m d. require_admin_token st tok = Inl (AppError m 401 d)))
   \<and> (require_admin_token st tok = Inr () \<longleftrightarrow>
      secret_configured st \<and> tok = admin_token st)"
  by (cases "admin_token st"; cases tok)
     (auto simp: require_admin_token_def secret_configured_def)

theorem require_admin_token_gate_witness:
  "\<not> secret_configured \<lparr>digitalocean_bucket = ''b'', digitalocean_cdn_endpoint = ''c'',
        digitalocean_upload_prefix = ''p'', digitalocean_max_file_size_mb = 5,
        admin_token = None\<rparr>
   \<and> secret_configured \<lparr>digitalocean_bucket = ''b'', digitalocean_cdn_endpoint = ''c'',
        digitalocean_upload_prefix = ''p'', digitalocean_max_file_size_mb = 5,
        admin_token = Some ''s3cret''\<rparr>
   \<and> (\<exists>m d. require_admin_token \<lparr>digitalocean_bucket = ''b'',
        digitalocean_cdn_endpoint = ''c'', digitalocean_upload_prefix = ''p'',
        digitalocean_max_file_size_mb = 5, admin_token = None\<rparr> (Some ''s3cret'')
          = Inl (AppError m 500 d))
   \<and> (\<exists>m d. require_admin_token \<lparr>digitalocean_bucket = ''b'',
        digitalocean_cdn_endpoint = ''c'', digitalocean_upload_prefix = ''p'',
        digitalocean_max_file_size_mb = 5, admin_token = Some ''s3cret''\<rparr> (Some ''guess'')
          = Inl (AppError m 401 d))
   \<and> require_admin_token \<lparr>digitalocean_bucket = ''b'',
        digitalocean_cdn_endpoint = ''c'', digitalocean_upload_prefix = ''p'',
        digitalocean_max_file_size_mb = 5, admin_token = Some ''s3cret''\<rparr> (Some ''s3cret'')
          = Inr ()"
  using require_admin_token_gate
    [of "\<lparr>digitalocean_bucket = ''b'', digitalocean_cdn_endpoint = ''c'',
        digitalocean_upload_prefix = ''p'', digitalocean_max_file_size_mb = 5,
        admin_token = None\<rparr>" "Some ''s3cret''"]
    require_admin_token_gate
    [of "\<lparr>digitalocean_bucket = ''b'', digitalocean_cdn_endpoint = ''c'',
        digitalocean_upload_prefix = ''p'', digitalocean_max_file_size_mb = 5,
        admin_token = Some ''s3cret''\<rparr>" "Some ''guess''"]
    require_admin_token_gate
    [of "\<lparr>digitalocean_bucket = ''b'', digitalocean_cdn_endpoint = ''c'',
        digitalocean_upload_prefix = ''p'', digitalocean_max_file_size_mb = 5,
        admin_token = Some ''s3cret''\<rparr>" "Some ''s3cret''"]
  by (simp add: secret_configured_def)

subsection \<open>C8: the combinable filter\<close>

lemma add_filters_conds:
  "list_all (\<lambda>c. holds c p) (add_filters fs q)
     \<longleftrightarrow> list_all (\<lambda>c. holds c p) q
         \<and> list_all (\<lambda>(k, v). case v of None \<Rightarrow> True | Some x \<Rightarrow> holds (cond_of k x) p) fs"
  by (induction fs q rule: add_filters.induct) (auto simp: cond_of_def)

lemma column_filterable:
  "column ''district'' p = map_option QStr (district p)"
  "column ''emergency_type'' p = Some (QStr (emergency_type p))"
  "column ''water_level'' p = map_option QStr (water_level p)"
  "column ''is_medical_needed'' p = map_option QBool (is_medical_needed p)"
  "column ''need_foods'' p = map_option QBool (need_foods p)"
  "column ''need_water'' p = map_option QBool (need_water p)"
  "column ''need_transport'' p = map_option QBool (need_transport p)"
  "column ''need_medic'' p = map_option QBool (need_medic p)"
  "column ''need_power'' p = map_option QBool (need_power p)"
  "column ''need_clothes'' p = map_option QBool (need_clothes p)"
  "column ''is_verified'' p = map_option QBool (is_verified p)"
  "column ''number_of_peoples_to_rescue'' p = map_option QInt (number_of_peoples_to_rescue p)"
  "column ''safe_hours'' p = map_option QInt (safe_hours p)"
  "column ''id'' p = Some (QStr (row_id p))"
  by (simp_all add: column_def)

lemma holds_gte_int:
  "column f p = map_option QInt c \<Longrightarrow>
   holds (Gte f (QInt x)) p = (case c of None \<Rightarrow> False | Some n \<Rightarrow> n \<ge> x)"
  by (cases c) auto

lemma holds_lte_int:
  "column f p = map_option QInt c \<Longrightarrow>
   holds (Lte f (QInt x)) p = (case c of None \<Rightarrow> False | Some n \<Rightarrow> n \<le> x)"
  by (cases c) auto

lemma filtered_conds:
  "list_all (\<lambda>c. holds c p)
     (add_filters
            [(''district'', map_option QStr d),
             (''emergency_type'', map_option QStr e),
             (''water_level'', map_option QStr w),
             (''is_medical_needed'', map_option QBool med),
             (''need_foods'', map_option QBool fo),
             (''need_water'', map_option QBool wa),
             (''need_transport'', map_option QBool tr),
             (''need_medic'', map_option QBool me),
             (''need_power'', map_option QBool po),
             (''need_clothes'', map_option QBool cl),
             (''is_verified'', map_option QBool ve),
             (''min_people'', map_option QInt mp),
             (''max_safe_hours'', map_option QInt ms)] [])
   \<longleftrightarrow> spec_filter_conjunction p d e w med fo wa tr me po cl ve mp ms"
  unfolding add_filters_conds spec_filter_conjunction_def
  by (simp add: cond_of_def o_def column_filterable
        holds_gte_int [OF column_filterable(12)] holds_lte_int [OF column_filterable(13)]
      del: holds.simps(2,3) cong: option.case_cong)


lemma all_none_iff:
  "list_all (\<lambda>v. v = None)
     [map_option QStr d, map_option QStr e, map_option QStr w, map_option QBool med,
      map_option QBool fo, map_option QBool wa, map_option QBool tr, map_option QBool me,
      map_option QBool po, map_option QBool cl, map_option QBool ve, map_option QInt mp,
      map_option QInt ms]
   \<longleftrightarrow> d = None \<and> e = None \<and> w = None \<and> med = None \<and> fo = None \<and> wa = None
       \<and> tr = None \<and> me = None \<and> po = None \<and> cl = None \<and> ve = None \<and> mp = None
       \<and> ms = None"
  by simp

text \<open>
  C8. A request with every filter absent is rejected with the caller-input error, and the
  database client is returned as it was: no request has been executed. With one filter
  at least and the query answered, the operation returns exactly the rows satisfying the
  conjunction of the supplied predicates (each with its images, in stored order), after
  one request.
\<close>

theorem list_rescue_posts_filtered_conjunction:
  "((d = None \<and> e = None \<and> w = None \<and> med = None \<and> fo = None \<and> wa = None
       \<and> tr = None \<and> me = None \<and> po = None \<and> cl = None \<and> ve = None \<and> mp = None
       \<and> ms = None) \<longrightarrow>
      (\<exists>m dt. list_rescue_posts_filtered db d e w med fo wa tr me po cl ve mp ms
                 = (Inl (InvalidDataException m dt), db)))
   \<and> (\<not> (d = None \<and> e = None \<and> w = None \<and> med = None \<and> fo = None \<and> wa = None
       \<and> tr = None \<and> me = None \<and> po = None \<and> cl = None \<and> ve = None \<and> mp = None
       \<and> ms = None) \<and> api_error db = None \<longrightarrow>
      list_rescue_posts_filtered db d e w med fo wa tr me po cl ve mp ms
        = (Inr (map (embed_images db)
                 (filter (\<lambda>p. spec_filter_conjunction p d e w med fo wa tr me po cl ve mp ms)
                    (rescue_posts db))),
           db\<lparr>requests := requests db + 1\<rparr>))"
  unfolding list_rescue_posts_filtered_def Let_def list.map snd_conv fst_conv all_none_iff
  by (simp add: fetch_rescue_posts_filtered_def execute_select_def filtered_conds tick_def)

theorem list_rescue_posts_filtered_conjunction_witness:
  "(\<exists>m dt. list_rescue_posts_filtered sample_db None None None None None None None None
              None None None None None = (Inl (InvalidDataException m dt), sample_db))
   \<and> api_error sample_db = None
   \<and> map row_id (filter (\<lambda>p. spec_filter_conjunction p (Some ''Colombo'') None None None
         None None None None None None None (Some 5) None) (rescue_posts sample_db))
       = [''3'', ''1'']
   \<and> list_rescue_posts_filtered sample_db (Some ''Colombo'') None None None None None None
        None None None None (Some 5) None
       = (Inr (map (embed_images sample_db)
                 (filter (\<lambda>p. spec_filter_conjunction p (Some ''Colombo'') None None None
                    None None None None None None None (Some 5) None)
                    (rescue_posts sample_db))),
          sample_db\<lparr>requests := requests sample_db + 1\<rparr>)"
proof -
  have ok: "api_error sample_db = None"
    by (simp add: sample_db_def)
  have ids: "map row_id (filter (\<lambda>p. spec_filter_conjunction p (Some ''Colombo'') None None
         None None None None None None None None (Some 5) None) (rescue_posts sample_db))
       = [''3'', ''1'']"
    by (simp add: spec_filter_conjunction_def sample_db_def post_P1_def post_P2_def
        post_E1_def post_E2_def blank_post_def)
  from list_rescue_posts_filtered_conjunction
         [of None None None None None None None None None None None None None sample_db]
       list_rescue_posts_filtered_conjunction
         [of "Some ''Colombo''" None None None None None None None None None None "Some 5"
             None sample_db]
       ok ids
  show ?thesis by simp
qed

subsection \<open>C9: verifying and deleting a post that does not exist\<close>

lemma holds_id: "holds (Eq ''id'' (QStr pid)) = (\<lambda>p. row_id p = pid)"
  by (rule ext) (simp add: column_filterable)

text \<open>
  C9. With the database answering: for a post id that matches no row, the verify
  operation and the delete operation both fail with the not-found error of status 404;
  when a row has the id, verify returns that row with \<open>is_verified\<close> set to true, and the
  table holds it so updated. For a non-empty id the service functions \<open>verify_post\<close> and
  \<open>delete_post\<close> are the repository functions.
\<close>

theorem verify_delete_not_found:
  assumes ok: "api_error db = None"
  shows "((\<forall>p \<in> set (rescue_posts db). row_id p \<noteq> pid) \<longrightarrow>
            verify_rescue_post db pid
              = (Inl (AppError ''Rescue post not found'' 404 [(''post_id'', DStr pid)]),
                 db\<lparr>requests := requests db + 1\<rparr>)
          \<and> delete_rescue_post db pid
              = (Inl (AppError ''Rescue post not found'' 404 [(''post_id'', DStr pid)]),
                 db\<lparr>requests := requests db + 1\<rparr>))
       \<and> ((\<exists>p \<in> set (rescue_posts db). row_id p = pid) \<longrightarrow>
            (\<exists>p \<in> set (rescue_posts db). row_id p = pid
                \<and> fst (verify_rescue_post db pid) = Inr (p\<lparr>is_verified := Some True\<rparr>)
                \<and> p\<lparr>is_verified := Some True\<rparr>
                    \<in> set (rescue_posts (snd (verify_rescue_post db pid))))
          \<and> rescue_posts (snd (verify_rescue_post db pid))
              = map (\<lambda>q. if row_id q = pid then q\<lparr>is_verified := Some True\<rparr> else q)
                  (rescue_posts db))
       \<and> (pid \<noteq> [] \<longrightarrow> verify_post db pid = verify_rescue_post db pid
                       \<and> delete_post db pid = delete_rescue_post db pid)"
proof (intro conjI impI)
  assume none: "\<forall>p \<in> set (rescue_posts db). row_id p \<noteq> pid"
  then have empty: "filter (\<lambda>p. row_id p = pid) (rescue_posts db) = []"
    by (simp add: filter_empty_conv)
  then have same: "filter (\<lambda>p. row_id p \<noteq> pid) (rescue_posts db) = rescue_posts db"
    using none by (simp add: filter_id_conv)
  have m: "map (\<lambda>p. if row_id p = pid then p\<lparr>is_verified := Some True\<rparr> else p) (rescue_posts db)
        = rescue_posts db"
    using none by (simp add: map_idI)
  show "verify_rescue_post db pid
              = (Inl (AppError ''Rescue post not found'' 404 [(''post_id'', DStr pid)]),
                 db\<lparr>requests := requests db + 1\<rparr>)"
    using ok by (simp add: verify_rescue_post_def execute_verify_update_def holds_id empty m
        tick_def del: holds.simps)
  show "delete_rescue_post db pid
              = (Inl (AppError ''Rescue post not found'' 404 [(''post_id'', DStr pid)]),
                 db\<lparr>requests := requests db + 1\<rparr>)"
    using ok by (simp add: delete_rescue_post_def execute_delete_def holds_id empty same
        tick_def del: holds.simps)
next
  assume some: "\<exists>p \<in> set (rescue_posts db). row_id p = pid"
  then obtain p rest where f: "filter (\<lambda>p. row_id p = pid) (rescue_posts db) = p # rest"
    by (cases "filter (\<lambda>p. row_id p = pid) (rescue_posts db)") (auto simp: filter_empty_conv)
  then have "p \<in> set (filter (\<lambda>p. row_id p = pid) (rescue_posts db))"
    by simp
  then have p: "p \<in> set (rescue_posts db)" "row_id p = pid"
    by simp_all
  have res: "fst (verify_rescue_post db pid) = Inr (p\<lparr>is_verified := Some True\<rparr>)"
    using ok by (simp add: verify_rescue_post_def execute_verify_update_def holds_id f
        del: holds.simps)
  have rows: "rescue_posts (snd (verify_rescue_post db pid))
              = map (\<lambda>q. if row_id q = pid then q\<lparr>is_verified := Some True\<rparr> else q)
                  (rescue_posts db)"
    using ok by (simp add: verify_rescue_post_def execute_verify_update_def holds_id f tick_def
        del: holds.simps split: list.split)
  show "\<exists>p \<in> set (rescue_posts db). row_id p = pid
                \<and> fst (verify_rescue_post db pid) = Inr (p\<lparr>is_verified := Some True\<rparr>)
                \<and> p\<lparr>is_verified := Some True\<rparr>
                    \<in> set (rescue_posts (snd (verify_rescue_post db pid)))"
    using p res unfolding rows by (intro bexI [of _ p]) (auto simp: image_iff intro!: bexI [of _ p])
next
  show "rescue_posts (snd (verify_rescue_post db pid))
              = map (\<lambda>q. if row_id q = pid then q\<lparr>is_verified := Some True\<rparr> else q)
                  (rescue_posts db)"
    using ok by (simp add: verify_rescue_post_def execute_verify_update_def holds_id tick_def
        del: holds.simps split: list.split)
next
  assume "pid \<noteq> []"
  then show "verify_post db pid = verify_rescue_post db pid"
    by (simp add: verify_post_def)
next
  assume "pid \<noteq> []"
  then show "delete_post db pid = delete_rescue_post db pid"
    by (simp add: delete_post_def)
qed

theorem verify_delete_not_found_witness:
  "api_error sample_db = None
   \<and> map row_id (rescue_posts sample_db) = [''4'', ''3'', ''2'', ''1'']
   \<and> fst (verify_rescue_post sample_db ''99'')
       = Inl (AppError ''Rescue post not found'' 404 [(''post_id'', DStr ''99'')])
   \<and> fst (delete_rescue_post sample_db ''99'')
       = Inl (AppError ''Rescue post not found'' 404 [(''post_id'', DStr ''99'')])
   \<and> (\<exists>p. row_id p = ''2''
         \<and> fst (verify_rescue_post sample_db ''2'') = Inr (p\<lparr>is_verified := Some True\<rparr>))
   \<and> verify_post sample_db ''2'' = verify_rescue_post sample_db ''2''"
proof -
  have ok: "api_error sample_db = None"
    by (simp add: sample_db_def)
  have ids: "map row_id (rescue_posts sample_db) = [''4'', ''3'', ''2'', ''1'']"
    by (simp add: sample_db_def post_P1_def post_P2_def post_E1_def post_E2_def
        blank_post_def)
  have "''99'' \<notin> set (map row_id (rescue_posts sample_db))"
    unfolding ids by simp
  then have none: "\<forall>p \<in> set (rescue_posts sample_db). row_id p \<noteq> ''99''"
    by (metis image_eqI set_map)
  have "''2'' \<in> set (map row_id (rescue_posts sample_db))"
    unfolding ids by simp
  then have some: "\<exists>p \<in> set (rescue_posts sample_db). row_id p = ''2''"
    by (auto simp only: set_map image_iff)
  have ne: "''2'' \<noteq> []"
    by simp
  from verify_delete_not_found [OF ok, of "''99''"] none
  have a: "fst (verify_rescue_post sample_db ''99'')
             = Inl (AppError ''Rescue post not found'' 404 [(''post_id'', DStr ''99'')])
           \<and> fst (delete_rescue_post sample_db ''99'')
             = Inl (AppError ''Rescue post not found'' 404 [(''post_id'', DStr ''99'')])"
    by simp
  from verify_delete_not_found [OF ok, of "''2''"] some ne
  have b: "(\<exists>p. row_id p = ''2''
         \<and> fst (verify_rescue_post sample_db ''2'') = Inr (p\<lparr>is_verified := Some True\<rparr>))
        \<and> verify_post sample_db ''2'' = verify_rescue_post sample_db ''2''"
    by blast
  from ok ids a b show ?thesis by blast
qed

subsection \<open>C6: a batch with an invalid file\<close>

lemma startswith_image: "startswith ct ''image/'' \<longleftrightarrow> take 6 ct = ''image/''"
proof -
  have "length ''image/'' = 6" by simp
  then show ?thesis unfolding startswith_def by (simp only:)
qed

lemma upload_one_invalid:
  "spec_invalid_file g st u \<Longrightarrow>
   \<exists>m d. upload_one g uuid4 fails st i u store = (Inl (InvalidDataException m d), store)"
  by (auto simp: spec_invalid_file_def upload_one_def effective_content_type_def startswith_image
       Let_def split: option.splits if_splits)

lemma upload_one_valid:
  "\<not> spec_invalid_file g st u \<Longrightarrow>
   upload_one g uuid4 fails st i u store =
     (if fails (put_request_of g uuid4 st i u) then
        (Inl (AppError ''Failed to upload image'' 500
                [(''filename'', DStr (case filename u of None \<Rightarrow> [] | Some f \<Rightarrow> f))]), store)
      else (Inr (spec_cdn_url st uuid4 i u), store @ [put_request_of g uuid4 st i u]))"
  by (auto simp: spec_invalid_file_def upload_one_def effective_content_type_def startswith_image
       put_request_of_def spec_cdn_url_def object_key_def
       Let_def split: option.splits if_splits)

lemma upload_one_Inr:
  assumes "upload_one g uuid4 fails st i u store = (Inr url, store')"
  shows "url = spec_cdn_url st uuid4 i u \<and> store' = store @ [put_request_of g uuid4 st i u]"
proof (cases "spec_invalid_file g st u")
  case True
  from upload_one_invalid [OF this, of uuid4 fails i store] assms show ?thesis by auto
next
  case False
  from upload_one_valid [OF this, of uuid4 fails i store] assms show ?thesis
    by (auto split: if_splits)
qed

lemma upload_loop_urls:
  "upload_loop g uuid4 fails st files i urls0 store = (Inr urls, store') \<Longrightarrow>
   urls = urls0 @ map (\<lambda>j. spec_cdn_url st uuid4 (i + j) (files ! j)) [0..<length files]"
proof (induction files arbitrary: i urls0 store)
  case Nil
  then show ?case by simp
next
  case (Cons u rest)
  from Cons.prems obtain url s1 where
    one: "upload_one g uuid4 fails st i u store = (Inr url, s1)"
    and more: "upload_loop g uuid4 fails st rest (Suc i) (urls0 @ [url]) s1 = (Inr urls, store')"
    by (auto split: prod.splits sum.splits)
  from upload_one_Inr [OF one] have url: "url = spec_cdn_url st uuid4 i u" by simp
  from Cons.IH [OF more]
  have "urls = (urls0 @ [url]) @ map (\<lambda>j. spec_cdn_url st uuid4 (Suc i + j) (rest ! j)) [0..<length rest]" .
  then show ?case
    by (simp add: url map_upt_Suc del: upt_Suc)
qed

lemma upload_loop_first_invalid:
  assumes "k < length files" "spec_invalid_file g st (files ! k)"
    "\<forall>j<k. \<not> spec_invalid_file g st (files ! j)"
    "\<forall>j<k. \<not> fails (put_request_of g uuid4 st (i + j) (files ! j))"
  shows "\<exists>m d. upload_loop g uuid4 fails st files i urls0 store
           = (Inl (InvalidDataException m d),
              store @ map (\<lambda>j. put_request_of g uuid4 st (i + j) (files ! j)) [0..<k])"
  using assms
proof (induction files arbitrary: i k urls0 store)
  case Nil
  then show ?case by simp
next
  case (Cons u rest)
  show ?case
  proof (cases k)
    case 0
    with Cons.prems have "spec_invalid_file g st u" by simp
    from upload_one_invalid [OF this, of uuid4 fails i store] 0 show ?thesis
      by auto
  next
    case (Suc k')
    with Cons.prems have valid: "\<not> spec_invalid_file g st u"
      and nf: "\<not> fails (put_request_of g uuid4 st i u)"
      by force+
    have one: "upload_one g uuid4 fails st i u store
        = (Inr (spec_cdn_url st uuid4 i u), store @ [put_request_of g uuid4 st i u])"
      using upload_one_valid [OF valid, of uuid4 fails i store] nf by simp
    have a: "k' < length rest" using Cons.prems Suc by simp
    have b: "spec_invalid_file g st (rest ! k')" using Cons.prems Suc by simp
    have c: "\<forall>j<k'. \<not> spec_invalid_file g st (rest ! j)" using Cons.prems(3) Suc by auto
    have d: "\<forall>j<k'. \<not> fails (put_request_of g uuid4 st (Suc i + j) (rest ! j))"
      using Cons.prems(4) Suc by auto
    from Cons.IH [OF a b c d, of "urls0 @ [spec_cdn_url st uuid4 i u]"
        "store @ [put_request_of g uuid4 st i u]"]
    show ?thesis
      by (simp add: one Suc map_upt_Suc del: upt_Suc)
  qed
qed


text \<open>
  C6 fails as stated: a batch of a valid file followed by an empty one is rejected with
  the caller-input error of the empty file, yet the valid file has been written to the
  object storage by then.
\<close>

theorem upload_partial_write_counterexample:
  "spec_invalid_file sample_guess_type sample_settings empty_file
   \<and> upload_images_to_spaces sample_guess_type sample_uuid4 never_fails sample_settings
        [good_file, empty_file] []
       = (Inl (InvalidDataException ''Image file is empty''
                 [(''field'', DStr ''images''), (''filename'', DStr ''roof.jpg'')]),
          [\<lparr>Bucket = ''rescue'',
            Key = ''posts_images/000000000000000000000000000000ff.png'',
            Body = ''PNGDATA'', ContentType = ''image/png'', ACL = ''public-read''\<rparr>])"
  by code_simp

text \<open>
  C6, amended. For every batch in which some file is invalid (no filename, a content type
  that is missing or not an image type, an empty body, a body above the byte ceiling):
  if the storage accepts the writes of the files before the first invalid one, the
  operation fails on the first invalid file with the caller-input error and returns no
  CDN URLs, and the object storage has received the files before the first invalid one,
  in order, and nothing else: nothing at all when the first file is the invalid one.
\<close>

theorem upload_fails_on_first_invalid:
  assumes "k < length files"
    and "spec_invalid_file g st (files ! k)"
    and "\<forall>j<k. \<not> spec_invalid_file g st (files ! j)"
    and "\<forall>j<k. \<not> fails (put_request_of g uuid4 st j (files ! j))"
  shows "\<exists>m d. upload_images_to_spaces g uuid4 fails st files store
           = (Inl (InvalidDataException m d),
              store @ map (\<lambda>j. put_request_of g uuid4 st j (files ! j)) [0..<k])"
proof -
  from assms(1) have "files \<noteq> []"
    by auto
  moreover from assms(4) have "\<forall>j<k. \<not> fails (put_request_of g uuid4 st (0 + j) (files ! j))"
    by simp
  from upload_loop_first_invalid [OF assms(1-3) this, of "[]" store]
  have "\<exists>m d. upload_loop g uuid4 fails st files 0 [] store
           = (Inl (InvalidDataException m d),
              store @ map (\<lambda>j. put_request_of g uuid4 st j (files ! j)) [0..<k])"
    by simp
  ultimately show ?thesis
    by (simp add: upload_images_to_spaces_def)
qed

theorem upload_fails_on_first_invalid_witness:
  "(1::nat) < length [good_file, empty_file]
   \<and> spec_invalid_file sample_guess_type sample_settings ([good_file, empty_file] ! 1)
   \<and> \<not> spec_invalid_file sample_guess_type sample_settings ([good_file, empty_file] ! 0)
   \<and> \<not> never_fails (put_request_of sample_guess_type sample_uuid4 sample_settings 0
                       ([good_file, empty_file] ! 0))
   \<and> (\<exists>m d. upload_images_to_spaces sample_guess_type sample_uuid4 never_fails
                sample_settings [good_file, empty_file] []
           = (Inl (InvalidDataException m d),
              [] @ map (\<lambda>j. put_request_of sample_guess_type sample_uuid4 sample_settings j
                             ([good_file, empty_file] ! j)) [0..<1]))"
proof -
  have h1: "(1::nat) < length [good_file, empty_file]"
    by simp
  have h2: "spec_invalid_file sample_guess_type sample_settings ([good_file, empty_file] ! 1)"
    by (simp add: spec_invalid_file_def empty_file_def)
  have v: "\<not> spec_invalid_file sample_guess_type sample_settings ([good_file, empty_file] ! 0)"
    by (simp add: spec_invalid_file_def good_file_def effective_content_type_def
        sample_settings_def)
  then have h3: "\<forall>j<1. \<not> spec_invalid_file sample_guess_type sample_settings
                           ([good_file, empty_file] ! j)"
    by simp
  have nf: "\<not> never_fails (put_request_of sample_guess_type sample_uuid4 sample_settings 0
                       ([good_file, empty_file] ! 0))"
    by (simp add: never_fails_def)
  then have h4: "\<forall>j<1. \<not> never_fails (put_request_of sample_guess_type sample_uuid4
                           sample_settings j ([good_file, empty_file] ! j))"
    by simp
  from upload_fails_on_first_invalid [OF h1 h2 h3 h4, of "[]"] h1 h2 v nf
  show ?thesis by blast
qed

subsection \<open>C10: the shape of the CDN URLs\<close>

lemma hex_digits_length: "length (hex_digits k n) = k"
  by (induction k arbitrary: n) simp_all

lemma hex_char_in: "hex_char d \<in> set ''0123456789abcdef''"
proof -
  have "nat (d mod 16) < 16" by simp
  then have "nat (d mod 16) < length ''0123456789abcdef''" by simp
  then show ?thesis unfolding hex_char_def by (rule nth_mem)
qed

lemma hex_digits_set: "set (hex_digits k n) \<subseteq> set ''0123456789abcdef''"
proof (induction k arbitrary: n)
  case 0
  then show ?case by simp
next
  case (Suc k)
  from Suc [of "n div 16"] hex_char_in [of "n mod 16"] show ?case
    by auto
qed

lemma uuid_hex_length: "length (uuid_hex n) = 32"
  by (simp only: uuid_hex_def hex_digits_length)

lemma uuid_hex_set: "set (uuid_hex n) \<subseteq> set ''0123456789abcdef''"
  by (simp only: uuid_hex_def hex_digits_set)

lemma upload_loop_valid:
  "upload_loop g uuid4 fails st files i urls0 store = (Inr urls, store') \<Longrightarrow>
   \<forall>j < length files. \<not> spec_invalid_file g st (files ! j)"
proof (induction files arbitrary: i urls0 store)
  case Nil
  then show ?case by simp
next
  case (Cons u rest)
  from Cons.prems obtain url s1 where
    one: "upload_one g uuid4 fails st i u store = (Inr url, s1)"
    and more: "upload_loop g uuid4 fails st rest (Suc i) (urls0 @ [url]) s1 = (Inr urls, store')"
    by (auto split: prod.splits sum.splits)
  have "\<not> spec_invalid_file g st u"
    using upload_one_invalid [of g st u uuid4 fails i store] one by auto
  with Cons.IH [OF more] show ?case
    by (auto simp: less_Suc_eq_0_disj)
qed

text \<open>
  C10. When the image upload succeeds it returns one URL per file, and the URL of the
  \<open>i\<close>-th file is the configured CDN endpoint, then \<open>/projectrakawarananew/\<close>, then the
  object key: the configured upload prefix and a slash (nothing for an empty prefix),
  then the name, which is the 32 lower-case hexadecimal digits of the UUID drawn for the
  file followed by the extension of the file's name.
\<close>

theorem cdn_url_shape:
  assumes "upload_images_to_spaces g uuid4 fails st files store = (Inr urls, store')"
  shows "length urls = length files
       \<and> (\<forall>i < length files.
            urls ! i = digitalocean_cdn_endpoint st @ ''/projectrakawarananew/''
               @ (if digitalocean_upload_prefix st = [] then []
                  else digitalocean_upload_prefix st @ ''/'')
               @ uuid_hex (uuid4 i)
               @ snd (splitext (case filename (files ! i) of None \<Rightarrow> [] | Some f \<Rightarrow> f))
          \<and> filename (files ! i) \<noteq> None
          \<and> length (uuid_hex (uuid4 i)) = 32
          \<and> set (uuid_hex (uuid4 i)) \<subseteq> set ''0123456789abcdef'')"
proof -
  from assms have loop: "upload_loop g uuid4 fails st files 0 [] store = (Inr urls, store')"
    by (simp add: upload_images_to_spaces_def split: if_splits)
  from upload_loop_urls [OF loop]
  have urls: "urls = map (\<lambda>j. spec_cdn_url st uuid4 j (files ! j)) [0..<length files]"
    by simp
  have named: "filename (files ! i) \<noteq> None" if "i < length files" for i
    using upload_loop_valid [OF loop] that by (auto simp: spec_invalid_file_def)
  show ?thesis
  proof (intro conjI allI impI)
    show "length urls = length files"
      by (simp add: urls)
  next
    fix i assume "i < length files"
    then show "urls ! i = digitalocean_cdn_endpoint st @ ''/projectrakawarananew/''
               @ (if digitalocean_upload_prefix st = [] then []
                  else digitalocean_upload_prefix st @ ''/'')
               @ uuid_hex (uuid4 i)
               @ snd (splitext (case filename (files ! i) of None \<Rightarrow> [] | Some f \<Rightarrow> f))"
      by (simp add: urls spec_cdn_url_def)
  next
    fix i assume "i < length files"
    then show "filename (files ! i) \<noteq> None"
      by (rule named)
  next
    fix i show "length (uuid_hex (uuid4 i)) = 32"
      by (rule uuid_hex_length)
  next
    fix i show "set (uuid_hex (uuid4 i)) \<subseteq> set ''0123456789abcdef''"
      by (rule uuid_hex_set)
  qed
qed

theorem cdn_url_shape_witness:
  "upload_images_to_spaces sample_guess_type sample_uuid4 never_fails sample_settings
        [good_file] []
       = (Inr [''https://cdn.example/projectrakawarananew/posts_images/000000000000000000000000000000ff.png''],
          [\<lparr>Bucket = ''rescue'',
            Key = ''posts_images/000000000000000000000000000000ff.png'',
            Body = ''PNGDATA'', ContentType = ''image/png'', ACL = ''public-read''\<rparr>])
   \<and> [''https://cdn.example/projectrakawarananew/posts_images/000000000000000000000000000000ff.png''] ! 0
       = digitalocean_cdn_endpoint sample_settings @ ''/projectrakawarananew/''
           @ (if digitalocean_upload_prefix sample_settings = [] then []
              else digitalocean_upload_prefix sample_settings @ ''/'')
           @ uuid_hex (sample_uuid4 0)
           @ snd (splitext (case filename ([good_file] ! 0) of None \<Rightarrow> [] | Some f \<Rightarrow> f))
   \<and> length (uuid_hex (sample_uuid4 0)) = 32"
proof -
  have run: "upload_images_to_spaces sample_guess_type sample_uuid4 never_fails
        sample_settings [good_file] []
       = (Inr [''https://cdn.example/projectrakawarananew/posts_images/000000000000000000000000000000ff.png''],
          [\<lparr>Bucket = ''rescue'',
            Key = ''posts_images/000000000000000000000000000000ff.png'',
            Body = ''PNGDATA'', ContentType = ''image/png'', ACL = ''public-read''\<rparr>])"
    by code_simp
  have "(0::nat) < length [good_file]"
    by simp
  with cdn_url_shape [OF run] run show ?thesis
    by blast
qed

subsection \<open>C3: every violated field in one error\<close>

text \<open>
  C3 at a payload that violates two rules, the length of \<open>full_name\<close> and the digits of
  \<open>phone_number\<close>: the validator fails with the error of the phone validator alone, whose
  details name \<open>phone_number\<close> only; the violation of \<open>full_name\<close>, found first, is not
  reported. When both violations are of the declared bounds, both fields are reported.
\<close>

theorem validate_reports_phone_only:
  "constrained_str 3 150 (full_name two_violations_payload) = LineError (StringTooShort 3)
   \<and> validate_with_app_error two_violations_payload
     = Inl (InvalidDataException ''Phone Number must have 7-15 digits''
              [(''field'', DStr ''phone_number'')])
   \<and> validate_with_app_error two_lengths_payload
     = Inl (InvalidDataException ''Invalid rescue post data''
         [(''errors'', DErrors [(''full_name'', ''Must be at least 3 characters long''),
           (''phone_number'', ''Must be at least 7 characters long'')])])"
  by code_simp

subsection \<open>C4: the phone-number rule\<close>

lemma validate_phone_iff:
  "validate_phone s name = Inr d
     \<longleftrightarrow> d = filter isdigit s \<and> 7 \<le> length (filter isdigit s)
         \<and> length (filter isdigit s) \<le> 15"
  by (auto simp: validate_phone_def Let_def)

lemma validate_phone_rejects_iff:
  "(\<exists>e. validate_phone s name = Inl e)
     \<longleftrightarrow> length (filter isdigit s) \<le> 6 \<or> 16 \<le> length (filter isdigit s)"
  by (auto simp: validate_phone_def Let_def)

lemma phone_number_field_iff:
  "phone_number_field s = Accepted d
     \<longleftrightarrow> d = filter isdigit s \<and> length s \<le> 20 \<and> 7 \<le> length (filter isdigit s)
         \<and> length (filter isdigit s) \<le> 15"
  using length_filter_le [of isdigit s] validate_phone_rejects_iff [of s "''phone_number''"]
  by (auto simp: phone_number_field_def after_validator_def constrained_str_def
      validate_phone_iff split: sum.splits simp del: length_filter_le)

lemma alt_phone_number_field_iff:
  "alt_phone_number_field (Some s) = Accepted d
     \<longleftrightarrow> d = Some (filter isdigit s) \<and> length s \<le> 20 \<and> 7 \<le> length (filter isdigit s)
         \<and> length (filter isdigit s) \<le> 15"
  using length_filter_le [of isdigit s]
    validate_phone_rejects_iff [of s "''alt_phone_number''"]
  by (auto simp: alt_phone_number_field_def optional_def after_validator_def
      constrained_str_def validate_phone_iff split: sum.splits simp del: length_filter_le)

text \<open>
  C4 fails as stated: a number of ten digits written with separators in 21 characters
  is rejected, by the bound on the length of the raw string, which the schema checks
  before the digits are looked at.
\<close>

theorem phone_raw_length_counterexample:
  "length (filter isdigit ''077-123-4567 (mobile)'') = 10
   \<and> phone_number_field ''077-123-4567 (mobile)'' = LineError (StringTooLong 20)"
  by code_simp

text \<open>
  C4, amended. The phone validator function keeps the digit characters of its input and
  rejects exactly when their number is 6 or fewer or 16 or more. The schema runs it on a
  raw string that has passed the declared bounds of 7 to 20 characters: the field
  \<open>phone_number\<close> (and \<open>alt_phone_number\<close> when given) is accepted, with the digits
  of the input as its value, exactly when the raw string has at most 20 characters and
  between 7 and 15 digits.
\<close>

theorem phone_accepted_iff:
  "(validate_phone s name = Inr d
      \<longleftrightarrow> d = filter isdigit s \<and> 7 \<le> length (filter isdigit s)
          \<and> length (filter isdigit s) \<le> 15)
   \<and> ((\<exists>e. validate_phone s name = Inl e)
      \<longleftrightarrow> length (filter isdigit s) \<le> 6 \<or> 16 \<le> length (filter isdigit s))
   \<and> (phone_number_field s = Accepted d
      \<longleftrightarrow> d = filter isdigit s \<and> length s \<le> 20 \<and> 7 \<le> length (filter isdigit s)
          \<and> length (filter isdigit s) \<le> 15)
   \<and> (alt_phone_number_field (Some s) = Accepted (Some d)
      \<longleftrightarrow> d = filter isdigit s \<and> length s \<le> 20 \<and> 7 \<le> length (filter isdigit s)
          \<and> length (filter isdigit s) \<le> 15)"
  using validate_phone_iff [of s name d] validate_phone_rejects_iff [of s name]
    phone_number_field_iff [of s d] alt_phone_number_field_iff [of s "Some d"]
  by simp

subsection \<open>C5: the phone numbers of a created post\<close>

text \<open>On the code points 0..255 the validator over an alphabet is the validator above,
  and the ASCII digit of a decimal digit is the digit itself
  (\<open>validate_with_app_error_u_char_class\<close>, \<open>ascii_digit_char_class\<close> below).\<close>

lemma validate_phone_u_iff:
  "validate_phone_u classify s name = Inr d
     \<longleftrightarrow> d = filter (isdigit_u classify) s \<and> 7 \<le> length (filter (isdigit_u classify) s)
         \<and> length (filter (isdigit_u classify) s) \<le> 15"
  by (auto simp: validate_phone_u_def Let_def)

lemma phone_number_field_u_iff:
  "phone_number_field_u classify s = Accepted d
     \<longleftrightarrow> d = filter (isdigit_u classify) s \<and> length s \<le> 20
         \<and> 7 \<le> length (filter (isdigit_u classify) s)
         \<and> length (filter (isdigit_u classify) s) \<le> 15"
  using length_filter_le [of "isdigit_u classify" s]
  by (auto simp: phone_number_field_u_def after_validator_def constrained_str_u_def
      validate_phone_u_iff split: sum.splits simp del: length_filter_le)
     (auto simp: validate_phone_u_def Let_def)

lemma alt_phone_number_field_u_iff:
  "alt_phone_number_field_u classify (Some s) = Accepted d
     \<longleftrightarrow> d = Some (filter (isdigit_u classify) s) \<and> length s \<le> 20
         \<and> 7 \<le> length (filter (isdigit_u classify) s)
         \<and> length (filter (isdigit_u classify) s) \<le> 15"
  using length_filter_le [of "isdigit_u classify" s]
  by (auto simp: alt_phone_number_field_u_def optional_def after_validator_def
      constrained_str_u_def validate_phone_u_iff split: sum.splits simp del: length_filter_le)
     (auto simp: validate_phone_u_def Let_def)

lemma collect_no_errors: "collect fs errs m = Inr ([], m') \<Longrightarrow> errs = []"
  by (induction fs errs m rule: collect.induct) auto

lemma collect_Cons_clean:
  "collect ((n, r) # rest) [] m = Inr ([], m') \<Longrightarrow>
   \<exists>u. r = Accepted u \<and> collect rest [] (u m) = Inr ([], m')"
  by (cases r) (auto dest: collect_no_errors)

lemma map_checked_Accepted:
  "map_checked f r = Accepted u \<longleftrightarrow> (\<exists>x. r = Accepted x \<and> u = f x)"
  by (cases r) auto

lemma validated_phones:
  assumes "validate_with_app_error_u classify data = Inr v"
  shows "phone_number_field_u classify (phone_number data) = Accepted (phone_number v)
       \<and> alt_phone_number_field_u classify (alt_phone_number data)
           = Accepted (alt_phone_number v)"
proof -
  from assms have "collect (field_outcomes_u classify data) [] data = Inr ([], v)"
    by (auto simp: validate_with_app_error_u_def model_validate_u_def
        split: sum.splits prod.splits if_splits)
  then show ?thesis
    unfolding field_outcomes_u_def
    apply -
    apply (drule collect_Cons_clean, clarsimp simp: map_checked_Accepted)+
    done
qed

lemma isdigit_u_char_class: "isdigit_u char_class c = isdigit c"
  by (simp add: isdigit_u_def char_class_def isdigit_def)

lemma validate_with_app_error_u_char_class:
  "validate_with_app_error_u char_class data = validate_with_app_error data"
proof -
  have "isdigit_u char_class = isdigit"
    by (rule ext) (rule isdigit_u_char_class)
  then have "field_outcomes_u char_class data = field_outcomes data"
    by (simp add: field_outcomes_u_def field_outcomes_def phone_number_field_u_def
        phone_number_field_def alt_phone_number_field_u_def alt_phone_number_field_def
        validate_phone_u_def validate_phone_def constrained_str_u_def constrained_str_def)
  then show ?thesis
    by (simp add: validate_with_app_error_u_def validate_with_app_error_def
        model_validate_u_def model_validate_def)
qed

lemma digit_int_range: "0 \<le> digit_int d \<and> digit_int d \<le> 9"
  by (cases d) simp_all

lemma digit_char_table:
  "digit_char 0 = CHR ''0''" "digit_char 1 = CHR ''1''" "digit_char 2 = CHR ''2''"
  "digit_char 3 = CHR ''3''" "digit_char 4 = CHR ''4''" "digit_char 5 = CHR ''5''"
  "digit_char 6 = CHR ''6''" "digit_char 7 = CHR ''7''" "digit_char 8 = CHR ''8''"
  "digit_char 9 = CHR ''9''"
  by code_simp+

lemma digit_char_digit_int: "digit_char (digit_int d) = digit_ascii d"
  by (cases d) (simp_all add: digit_char_table)

lemma digit_ascii_zero: "digit_ascii d = CHR ''0'' \<longleftrightarrow> digit_int d = 0"
  by (cases d) simp_all

lemma digit_value_decimal:
  assumes "isdecimal_u classify c"
  shows "0 \<le> digit_value classify c" "digit_value classify c \<le> 9"
    "digit_char (digit_value classify c) = ascii_digit classify c"
    "ascii_digit classify c = CHR ''0'' \<longleftrightarrow> digit_value classify c = 0"
  using assms digit_int_range digit_char_digit_int digit_ascii_zero
  by (auto simp: isdecimal_u_def digit_value_def ascii_digit_def split: digit_class.splits)

lemma digits_value_snoc:
  "digits_value classify (ds @ [c]) = 10 * digits_value classify ds + digit_value classify c"
  by (simp add: digits_value_def)

lemma digits_value_nonneg:
  "list_all (isdecimal_u classify) ds \<Longrightarrow> 0 \<le> digits_value classify ds"
proof (induction ds rule: rev_induct)
  case Nil
  then show ?case by (simp add: digits_value_def)
next
  case (snoc c ds)
  then show ?case
    using digit_value_decimal(1) [of classify c] by (simp add: digits_value_snoc)
qed

lemma digits_value_zero_iff:
  "list_all (isdecimal_u classify) ds \<Longrightarrow>
   digits_value classify ds = 0
     \<longleftrightarrow> dropWhile (\<lambda>x. x = CHR ''0'') (map (ascii_digit classify) ds) = []"
proof (induction ds rule: rev_induct)
  case Nil
  then show ?case by (simp add: digits_value_def)
next
  case (snoc c ds)
  then have dec: "list_all (isdecimal_u classify) ds" and c: "isdecimal_u classify c"
    by simp_all
  have nn: "0 \<le> digits_value classify ds"
    by (rule digits_value_nonneg [OF dec])
  with digit_value_decimal(1) [OF c]
  have "10 * digits_value classify ds + digit_value classify c = 0
          \<longleftrightarrow> digits_value classify ds = 0 \<and> digit_value classify c = 0"
    by auto
  with snoc.IH [OF dec] digit_value_decimal(4) [OF c] show ?case
    by (auto simp: digits_value_snoc dropWhile_append)
qed

lemma decimal_step:
  assumes "0 \<le> a" "0 \<le> b" "b \<le> 9"
  shows "decimal (10 * a + b) = (if a = 0 then [digit_char b] else decimal a @ [digit_char b])"
proof (cases "a = 0")
  case True
  with assms show ?thesis by (simp add: decimal.simps [of b])
next
  case False
  with assms have "\<not> 10 * a + b < 10" by simp
  moreover from assms have "(10 * a + b) div 10 = a" "(10 * a + b) mod 10 = b"
    by simp_all
  ultimately show ?thesis
    using False by (simp add: decimal.simps [of "10 * a + b"])
qed

lemma str_of_int_digits_value:
  "ds \<noteq> [] \<Longrightarrow> list_all (isdecimal_u classify) ds \<Longrightarrow>
   str_of_int (digits_value classify ds)
     = without_leading_zeros (map (ascii_digit classify) ds)"
proof (induction ds rule: rev_induct)
  case Nil
  then show ?case by simp
next
  case (snoc c ds)
  then have dec: "list_all (isdecimal_u classify) ds" and c: "isdecimal_u classify c"
    by simp_all
  let ?z = "\<lambda>x. x = CHR ''0''"
  let ?a = "map (ascii_digit classify) ds"
  let ?c = "ascii_digit classify c"
  have nn: "0 \<le> digits_value classify ds" by (rule digits_value_nonneg [OF dec])
  have val: "str_of_int (digits_value classify (ds @ [c]))
     = (if digits_value classify ds = 0 then [?c] else decimal (digits_value classify ds) @ [?c])"
    using nn digit_value_decimal(1,2) [OF c]
      decimal_step [OF nn digit_value_decimal(1,2) [OF c]] digit_value_decimal(3) [OF c]
    by (simp add: str_of_int_def digits_value_snoc)
  show ?case
  proof (cases "digits_value classify ds = 0")
    case True
    with digits_value_zero_iff [OF dec] have z: "dropWhile ?z ?a = []"
      by simp
    then have "\<forall>x\<in>set ?a. x = CHR ''0''" by simp
    then have "dropWhile ?z (?a @ [?c]) = dropWhile ?z [?c]"
      by (simp add: dropWhile_append)
    then show ?thesis
      using True val by (simp add: without_leading_zeros_def)
  next
    case False
    with digits_value_zero_iff [OF dec] have nz: "dropWhile ?z ?a \<noteq> []"
      by simp
    then have ne: "ds \<noteq> []" by auto
    from nz have "dropWhile ?z (?a @ [?c]) = dropWhile ?z ?a @ [?c]"
      by (auto simp: dropWhile_append)
    moreover have "without_leading_zeros ?a = dropWhile ?z ?a"
      using nz by (simp only: without_leading_zeros_def if_False)
    moreover have "str_of_int (digits_value classify ds) = decimal (digits_value classify ds)"
      using nn by (simp add: str_of_int_def)
    moreover note snoc.IH [OF ne dec]
    ultimately have "decimal (digits_value classify ds) @ [?c] = dropWhile ?z (?a @ [?c])"
      by (simp only:)
    moreover from this have "dropWhile ?z (?a @ [?c]) \<noteq> []"
      by (metis snoc_eq_iff_butlast)
    ultimately show ?thesis
      using False val by (simp only: without_leading_zeros_def if_False map_append list.map)
  qed
qed

lemma ascii_digit_char_class:
  assumes "isdecimal c"
  shows "ascii_digit char_class c = c"
proof -
  have tbl: "\<forall>n \<in> {48 ..< 58 :: nat}.
      digit_ascii ([D0, D1, D2, D3, D4, D5, D6, D7, D8, D9] ! (n - 48)) = char_of n"
    by code_simp
  from assms have "code_point c \<in> {48 ..< 58}"
    by (auto simp: isdecimal_def)
  with tbl have "digit_ascii ([D0, D1, D2, D3, D4, D5, D6, D7, D8, D9] ! (code_point c - 48))
      = char_of (code_point c)"
    by blast
  with assms show ?thesis
    by (simp add: ascii_digit_def char_class_def code_point_def)
qed

lemma py_int_Inr:
  "py_int classify s = Inr n
     \<longleftrightarrow> s \<noteq> [] \<and> list_all (isdecimal_u classify) s \<and> n = digits_value classify s"
  by (auto simp: py_int_def)

lemma insert_rescue_post_Inr:
  "insert_rescue_post db payload = (Inr r, db') \<Longrightarrow>
   phone_number r = phone_number payload \<and> alt_phone_number r = alt_phone_number payload
   \<and> r \<in> set (rescue_posts db')"
  by (auto simp: insert_rescue_post_def execute_insert_post_def Let_def tick_def
      split: option.splits)

lemma insert_images_rows:
  "insert_images db imgs = (res, db') \<Longrightarrow> rescue_posts db' = rescue_posts db"
  by (auto simp: insert_images_def execute_insert_images_def tick_def
      split: option.splits if_splits)

text \<open>
  C5 fails as stated: the valid payload with the phone number 0771234567 is created
  with the int 771234567 as its stored phone number, which printed back is 771234567:
  no string, and the leading zero is gone.
\<close>

theorem created_phone_counterexample:
  "filter isdigit (phone_number valid_payload) = ''0771234567''
   \<and> created_phone (create_rescue_post_with_images char_class sample_guess_type sample_uuid4
        never_fails sample_settings valid_payload [good_file] sample_db [])
       = Some 771234567
   \<and> str_of_int 771234567 = ''771234567''"
  by code_simp

text \<open>
  C5, amended. For every successfully created post, whatever the script its phone number
  is written in: the digit characters of the input's phone number are 7 to 15 and are
  all decimal digits, and the stored \<open>phone_number\<close> is the int which these digits
  denote in base 10; printed back it is the ASCII digits of their values without the
  leading zeros (for a number written in ASCII digits: the digit string without its
  leading zeros). The same holds of \<open>alt_phone_number\<close> when one is given, and the
  stored value is null when none is. The post returned is a row of the table.
\<close>

theorem created_post_phone_is_int:
  assumes "fst (create_rescue_post_with_images classify g uuid4 fails st payload files db
                  store)
             = Inr (post_record, image_records)"
  shows "7 \<le> length (filter (isdigit_u classify) (phone_number payload))
       \<and> length (filter (isdigit_u classify) (phone_number payload)) \<le> 15
       \<and> list_all (isdecimal_u classify) (filter (isdigit_u classify) (phone_number payload))
       \<and> phone_number post_record
           = digits_value classify (filter (isdigit_u classify) (phone_number payload))
       \<and> str_of_int (phone_number post_record)
           = without_leading_zeros
               (map (ascii_digit classify) (filter (isdigit_u classify) (phone_number payload)))
       \<and> (case alt_phone_number payload of
             None \<Rightarrow> alt_phone_number post_record = None
           | Some a \<Rightarrow>
               7 \<le> length (filter (isdigit_u classify) a)
               \<and> length (filter (isdigit_u classify) a) \<le> 15
               \<and> list_all (isdecimal_u classify) (filter (isdigit_u classify) a)
               \<and> alt_phone_number post_record
                   = Some (digits_value classify (filter (isdigit_u classify) a))
               \<and> str_of_int (digits_value classify (filter (isdigit_u classify) a))
                   = without_leading_zeros
                       (map (ascii_digit classify) (filter (isdigit_u classify) a)))
       \<and> post_record \<in> set (rescue_posts
             (fst (snd (create_rescue_post_with_images classify g uuid4 fails st payload
                          files db store))))"
proof -
  obtain res db' store' where
    res: "create_rescue_post_with_images classify g uuid4 fails st payload files db store
            = (res, db', store')"
    by (cases "create_rescue_post_with_images classify g uuid4 fails st payload files db store")
  with assms have full:
    "create_rescue_post_with_images classify g uuid4 fails st payload files db store
            = (Inr (post_record, image_records), db', store')"
    by simp
  from full obtain v urls ph alt dbi where
    v: "validate_with_app_error_u classify payload = Inr v"
    and ph: "py_int classify (phone_number v) = Inr ph"
    and alt: "(case alt_phone_number v of None \<Rightarrow> Inr None
               | Some a \<Rightarrow> (case py_int classify a of Inl e \<Rightarrow> Inl e
                            | Inr n \<Rightarrow> Inr (Some n)))
              = Inr alt"
    and ins: "insert_rescue_post db (post_payload_of v ph alt) = (Inr post_record, dbi)"
    and imgs: "insert_images dbi
                 (map (\<lambda>url. \<lparr>image_url = url, post_id = row_id post_record\<rparr>) urls)
               = (Inr image_records, db')"
    unfolding create_rescue_post_with_images_def
    by (auto split: sum.splits prod.splits)
  let ?d = "filter (isdigit_u classify) (phone_number payload)"
  from validated_phones [OF v]
  have f1: "phone_number_field_u classify (phone_number payload) = Accepted (phone_number v)"
    and f2: "alt_phone_number_field_u classify (alt_phone_number payload)
               = Accepted (alt_phone_number v)"
    by simp_all
  from f1 have d: "phone_number v = ?d" "7 \<le> length ?d" "length ?d \<le> 15"
    by (simp_all add: phone_number_field_u_iff)
  from ph have p: "phone_number v \<noteq> []" "list_all (isdecimal_u classify) (phone_number v)"
    "ph = digits_value classify (phone_number v)"
    by (simp_all add: py_int_Inr)
  from insert_rescue_post_Inr [OF ins]
  have r: "phone_number post_record = ph" "alt_phone_number post_record = alt"
    "post_record \<in> set (rescue_posts dbi)"
    by (simp_all add: post_payload_of_def)
  from insert_images_rows [OF imgs] r(3) have mem: "post_record \<in> set (rescue_posts db')"
    by simp
  have altc: "(case alt_phone_number payload of
             None \<Rightarrow> alt_phone_number post_record = None
           | Some a \<Rightarrow>
               7 \<le> length (filter (isdigit_u classify) a)
               \<and> length (filter (isdigit_u classify) a) \<le> 15
               \<and> list_all (isdecimal_u classify) (filter (isdigit_u classify) a)
               \<and> alt_phone_number post_record
                   = Some (digits_value classify (filter (isdigit_u classify) a))
               \<and> str_of_int (digits_value classify (filter (isdigit_u classify) a))
                   = without_leading_zeros
                       (map (ascii_digit classify) (filter (isdigit_u classify) a)))"
  proof (cases "alt_phone_number payload")
    case None
    with f2 have "alt_phone_number v = None"
      by (simp add: alt_phone_number_field_u_def optional_def)
    with alt r(2) None show ?thesis by simp
  next
    case (Some a)
    let ?a = "filter (isdigit_u classify) a"
    from Some f2 have a: "alt_phone_number v = Some ?a" "7 \<le> length ?a" "length ?a \<le> 15"
      by (simp_all add: alt_phone_number_field_u_iff)
    with alt have b: "?a \<noteq> []" "list_all (isdecimal_u classify) ?a"
      "alt = Some (digits_value classify ?a)"
      by (auto simp: py_int_Inr split: sum.splits)
    from str_of_int_digits_value [OF b(1,2)] a b r(2) Some show ?thesis
      by simp
  qed
  from p(1,2) have "str_of_int (digits_value classify (phone_number v))
      = without_leading_zeros (map (ascii_digit classify) (phone_number v))"
    by (rule str_of_int_digits_value)
  with p d r mem altc show ?thesis
    by (simp add: res)
qed

theorem created_post_phone_is_int_witness:
  "fst (create_rescue_post_with_images unicode_sample_class sample_guess_type sample_uuid4
          never_fails sample_settings arabic_indic_payload [good_file] sample_db [])
     = Inr (stored_valid_post, [stored_valid_image])
   \<and> phone_number stored_valid_post
       = digits_value unicode_sample_class
           (filter (isdigit_u unicode_sample_class) (phone_number arabic_indic_payload))
   \<and> str_of_int (phone_number stored_valid_post)
       = without_leading_zeros (map (ascii_digit unicode_sample_class)
           (filter (isdigit_u unicode_sample_class) (phone_number arabic_indic_payload)))
   \<and> map (ascii_digit unicode_sample_class)
           (filter (isdigit_u unicode_sample_class) (phone_number arabic_indic_payload))
       = ''0771234567''
   \<and> fst (create_rescue_post_with_images char_class sample_guess_type sample_uuid4
          never_fails sample_settings valid_payload [good_file] sample_db [])
     = Inr (stored_valid_post, [stored_valid_image])
   \<and> str_of_int (phone_number stored_valid_post)
       = without_leading_zeros (map (ascii_digit char_class)
           (filter (isdigit_u char_class) (phone_number valid_payload)))"
proof -
  have run: "fst (create_rescue_post_with_images unicode_sample_class sample_guess_type
          sample_uuid4 never_fails sample_settings arabic_indic_payload [good_file]
          sample_db [])
     = Inr (stored_valid_post, [stored_valid_image])"
    by code_simp
  have run8: "fst (create_rescue_post_with_images char_class sample_guess_type sample_uuid4
          never_fails sample_settings valid_payload [good_file] sample_db [])
     = Inr (stored_valid_post, [stored_valid_image])"
    by code_simp
  have ascii: "map (ascii_digit unicode_sample_class)
           (filter (isdigit_u unicode_sample_class) (phone_number arabic_indic_payload))
       = ''0771234567''"
    by code_simp
  from created_post_phone_is_int [OF run] created_post_phone_is_int [OF run8] run run8 ascii
  show ?thesis
    by blast
qed


end
